theory Spec2Isabelle
  imports Complex_Main "HOL-Library.Word" "HOL-Library.Multiset"
begin

section \<open>The training script \<^verbatim>\<open>train_mnist.py\<close> as a state-passing program\<close>

text \<open>
  The script is one module-level program. Its collaborators (Chainer's model, optimizer and
  serializers, NumPy's random generator, the clock) are not part of the source; they are
  taken as the fields of an environment record, so every theorem holds for every
  implementation of them. Python floats are idealised as \<^typ>\<open>real\<close>.
  Every exception the script can raise by itself is a value of \<open>error\<close>, returned
  together with the state reached when it was raised.
\<close>

subsection \<open>Data\<close>

datatype error = ValueError | IndexError | ZeroDivisionError | IOError | DeviceError

datatype net_type = Normal | Bn

text \<open>The parsed command line (\<^verbatim>\<open>args\<close>, lines 27-40).\<close>

record args =
  initmodel :: string
  resume :: string
  net :: net_type
  gpu :: int
  epoch :: int
  batchsize :: int

text \<open>What \<^verbatim>\<open>data.load_mnist_data()\<close> returns: a matrix of raw values and a label vector.\<close>

record raw_mnist =
  raw_data :: "int list list"
  raw_target :: "int list"

text \<open>The module-level variables of lines 58-61 (\<open>N_train\<close> is the source's \<^verbatim>\<open>N\<close>).\<close>

record dataset =
  N_train :: nat
  N_test :: nat
  x_train :: "real list list"
  x_test :: "real list list"
  y_train :: "int list"
  y_test :: "int list"

type_synonym batch = "real list list \<times> int list"

text \<open>
  The observable interactions of a run, in order: every call of the optimizer and of the
  model with the values read back from it, every report line, every file written.
\<close>

datatype event =
    Load_model string
  | Load_optimizer string
  | Epoch_start nat
  | Update "nat list" real real
  | Graph_generated
  | Train_report real real real
  | Forward "real list list" "int list" real real
  | Image_saved
  | Test_report real real
  | Save_model
  | Save_optimizer

text \<open>
  The collaborators. \<open>construct\<close> is lines 70-77 (random initialisation draws from the
  generator), \<open>to_device\<close> lines 79-81, \<open>setup_optimizer\<close> lines 85-88, the two loaders
  are \<^verbatim>\<open>serializers.load_npz\<close> (\<open>None\<close> when it raises), \<open>permutation\<close> is
  \<^verbatim>\<open>np.random.permutation\<close>, \<open>update_step\<close> is \<^verbatim>\<open>optimizer.update(model, x, t)\<close>,
  \<open>loss_data\<close> and \<open>mean_squared_error_data\<close> read \<^verbatim>\<open>model.loss.data\<close> and
  \<^verbatim>\<open>model.mean_squared_error.data\<close>, \<open>model_call\<close> is \<^verbatim>\<open>model(x, t)\<close> returning the
  loss, \<open>save_image\<close> is the visualisation block of lines 148-169 (it runs the two chains
  on the batch), and \<open>elapsed_time e\<close> is \<^verbatim>\<open>end - start\<close> measured in epoch \<open>e\<close>.
\<close>

record ('m, 'o, 'r) env =
  construct :: "net_type \<Rightarrow> 'r \<Rightarrow> 'm \<times> 'r"
  to_device :: "int \<Rightarrow> 'm \<Rightarrow> 'm option"
  setup_optimizer :: "'m \<Rightarrow> 'o"
  load_npz_model :: "string \<Rightarrow> 'm \<Rightarrow> 'm option"
  load_npz_optimizer :: "string \<Rightarrow> 'o \<Rightarrow> 'o option"
  permutation :: "nat \<Rightarrow> 'r \<Rightarrow> nat list \<times> 'r"
  update_step :: "'o \<Rightarrow> 'm \<Rightarrow> batch \<Rightarrow> 'o \<times> 'm"
  loss_data :: "'m \<Rightarrow> real"
  mean_squared_error_data :: "'m \<Rightarrow> real"
  model_call :: "'m \<Rightarrow> batch \<Rightarrow> 'm \<times> real"
  save_image :: "'m \<Rightarrow> real list list \<Rightarrow> 'm"
  elapsed_time :: "nat \<Rightarrow> real"

text \<open>The mutable variables of the script, and the trace of what it has done so far.\<close>

record ('m, 'o, 'r) state =
  model :: 'm
  optimizer :: 'o
  rng :: 'r
  sum_loss :: real
  sum_mean_squared_error :: real
  trace :: "event list"

type_synonym ('m, 'o, 'r) result = "error \<times> ('m, 'o, 'r) state + ('m, 'o, 'r) state"

subsection \<open>Python primitives\<close>

text \<open>\<^verbatim>\<open>six.moves.range(0, stop, step)\<close>: a zero step raises, a negative step gives nothing.\<close>

definition py_range :: "nat \<Rightarrow> int \<Rightarrow> error + nat list" where
  "py_range stop step =
     (if step = 0 then Inl ValueError
      else if step < 0 then Inr []
      else Inr (map (\<lambda>k. k * nat step) [0..<(stop + nat step - 1) div nat step]))"

text \<open>\<^verbatim>\<open>xs[i:j]\<close> for \<open>0 \<le> i \<le> j\<close>: the slice is clipped at the end of the array.\<close>

definition py_slice :: "'a list \<Rightarrow> nat \<Rightarrow> nat \<Rightarrow> 'a list" where
  "py_slice xs i j = take (j - i) (drop i xs)"

text \<open>\<^verbatim>\<open>xs[idxs]\<close> with an index array: an index past the end raises.\<close>

definition gather :: "'a list \<Rightarrow> nat list \<Rightarrow> error + 'a list" where
  "gather xs idxs =
     (if list_all (\<lambda>k. k < length xs) idxs then Inr (map (nth xs) idxs) else Inl IndexError)"

definition py_div :: "real \<Rightarrow> real \<Rightarrow> error + real" where
  "py_div a b = (if b = 0 then Inl ZeroDivisionError else Inr (a / b))"

text \<open>A \<^verbatim>\<open>for\<close> loop whose body may raise: the first exception ends the loop.\<close>

fun for_loop :: "('i \<Rightarrow> 's \<Rightarrow> error \<times> 's + 's) \<Rightarrow> 'i list \<Rightarrow> 's \<Rightarrow> error \<times> 's + 's" where
  "for_loop body [] st = Inr st"
| "for_loop body (i # is) st =
     (case body i st of Inl e \<Rightarrow> Inl e | Inr st' \<Rightarrow> for_loop body is st')"

subsection \<open>Dataset preparation (lines 52-61)\<close>

definition astype_int32 :: "int \<Rightarrow> int" where
  "astype_int32 v = sint (word_of_int v :: 32 word)"

definition div_255 :: "int list list \<Rightarrow> real list list" where
  "div_255 rows = map (map (\<lambda>v. real_of_int v / 255)) rows"

definition prepare_dataset :: "raw_mnist \<Rightarrow> dataset" where
  "prepare_dataset raw =
     \<lparr> N_train = 60000,
       N_test = length (drop 60000 (map astype_int32 (raw_target raw))),
       x_train = take 60000 (div_255 (raw_data raw)),
       x_test = drop 60000 (div_255 (raw_data raw)),
       y_train = take 60000 (map astype_int32 (raw_target raw)),
       y_test = drop 60000 (map astype_int32 (raw_target raw)) \<rparr>"

subsection \<open>Model, device, optimizer, init/resume (lines 69-96)\<close>

definition init_resume ::
  "('m, 'o, 'r) env \<Rightarrow> args \<Rightarrow> ('m, 'o, 'r) state \<Rightarrow> ('m, 'o, 'r) result" where
  "init_resume E A st =
     (let r1 = (if initmodel A \<noteq> [] then
                  (case load_npz_model E (initmodel A) (model st) of
                     None \<Rightarrow> Inl (IOError, st)
                   | Some m \<Rightarrow> Inr (st\<lparr>model := m, trace := trace st @ [Load_model (initmodel A)]\<rparr>))
                else Inr st)
      in case r1 of
           Inl e \<Rightarrow> Inl e
         | Inr st1 \<Rightarrow>
             (if resume A \<noteq> [] then
                (case load_npz_optimizer E (resume A) (optimizer st1) of
                   None \<Rightarrow> Inl (IOError, st1)
                 | Some opt \<Rightarrow>
                     Inr (st1\<lparr>optimizer := opt, trace := trace st1 @ [Load_optimizer (resume A)]\<rparr>))
              else Inr st1))"

text \<open>
  Model construction, device placement, optimizer set-up, then the two optional loads. A
  state record always has an optimizer field: at a device error, which the script meets
  before it creates the optimizer, the field holds the optimizer that would be set up next.
\<close>

definition build :: "('m, 'o, 'r) env \<Rightarrow> args \<Rightarrow> 'r \<Rightarrow> ('m, 'o, 'r) result" where
  "build E A seed =
     (case construct E (net A) seed of
        (m0, r) \<Rightarrow>
          (case (if 0 \<le> gpu A then to_device E (gpu A) m0 else Some m0) of
             None \<Rightarrow>
               Inl (DeviceError,
                    \<lparr>model = m0, optimizer = setup_optimizer E m0, rng = r,
                     sum_loss = 0, sum_mean_squared_error = 0, trace = []\<rparr>)
           | Some m \<Rightarrow>
               init_resume E A
                 \<lparr>model = m, optimizer = setup_optimizer E m, rng = r,
                  sum_loss = 0, sum_mean_squared_error = 0, trace = []\<rparr>))"

subsection \<open>The training phase of an epoch (lines 103-127)\<close>

definition train_step ::
  "('m, 'o, 'r) env \<Rightarrow> args \<Rightarrow> dataset \<Rightarrow> nat list \<Rightarrow> nat \<Rightarrow> nat \<Rightarrow>
   ('m, 'o, 'r) state \<Rightarrow> ('m, 'o, 'r) result" where
  "train_step E A D perm ep i st =
     (case gather (x_train D) (py_slice perm i (i + nat (batchsize A))) of
        Inl e \<Rightarrow> Inl (e, st)
      | Inr x \<Rightarrow>
          (case gather (y_train D) (py_slice perm i (i + nat (batchsize A))) of
             Inl e \<Rightarrow> Inl (e, st)
           | Inr t \<Rightarrow>
               (case update_step E (optimizer st) (model st) (x, t) of
                  (opt, m) \<Rightarrow>
                    Inr (st\<lparr>model := m, optimizer := opt,
                            sum_loss := sum_loss st + loss_data E m * real (length t),
                            sum_mean_squared_error :=
                              sum_mean_squared_error st
                                + mean_squared_error_data E m * real (length t),
                            trace := trace st
                              @ Update (py_slice perm i (i + nat (batchsize A)))
                                  (loss_data E m) (mean_squared_error_data E m)
                              # (if ep = 1 \<and> i = 0 then [Graph_generated] else [])\<rparr>))))"

definition train_report ::
  "('m, 'o, 'r) env \<Rightarrow> dataset \<Rightarrow> nat \<Rightarrow> ('m, 'o, 'r) state \<Rightarrow> ('m, 'o, 'r) result" where
  "train_report E D ep st =
     (case py_div (real (N_train D)) (elapsed_time E ep) of
        Inl e \<Rightarrow> Inl (e, st)
      | Inr throughput \<Rightarrow>
          (case py_div (sum_loss st) (real (N_train D)) of
             Inl e \<Rightarrow> Inl (e, st)
           | Inr l \<Rightarrow>
               (case py_div (sum_mean_squared_error st) (real (N_train D)) of
                  Inl e \<Rightarrow> Inl (e, st)
                | Inr m \<Rightarrow> Inr (st\<lparr>trace := trace st @ [Train_report l m throughput]\<rparr>))))"

definition train_phase ::
  "('m, 'o, 'r) env \<Rightarrow> args \<Rightarrow> dataset \<Rightarrow> nat \<Rightarrow> ('m, 'o, 'r) state \<Rightarrow> ('m, 'o, 'r) result" where
  "train_phase E A D ep st =
     (case permutation E (N_train D) (rng st) of
        (perm, r) \<Rightarrow>
          (case py_range (N_train D) (batchsize A) of
             Inl e \<Rightarrow> Inl (e, st\<lparr>rng := r, sum_mean_squared_error := 0, sum_loss := 0\<rparr>)
           | Inr starts \<Rightarrow>
               (case for_loop (train_step E A D perm ep) starts
                       (st\<lparr>rng := r, sum_mean_squared_error := 0, sum_loss := 0\<rparr>) of
                  Inl e \<Rightarrow> Inl e
                | Inr st1 \<Rightarrow> train_report E D ep st1)))"

subsection \<open>The evaluation phase of an epoch (lines 129-172)\<close>

definition eval_step ::
  "('m, 'o, 'r) env \<Rightarrow> args \<Rightarrow> dataset \<Rightarrow> nat \<Rightarrow> ('m, 'o, 'r) state \<Rightarrow> ('m, 'o, 'r) result" where
  "eval_step E A D i st =
     (case model_call E (model st)
             (py_slice (x_test D) i (i + nat (batchsize A)),
              py_slice (y_test D) i (i + nat (batchsize A))) of
        (m, loss) \<Rightarrow>
          Inr (st\<lparr>model :=
                    (if i = 0 then save_image E m (py_slice (x_test D) i (i + nat (batchsize A)))
                     else m),
                  sum_loss :=
                    sum_loss st
                      + loss * real (length (py_slice (y_test D) i (i + nat (batchsize A)))),
                  sum_mean_squared_error :=
                    sum_mean_squared_error st
                      + mean_squared_error_data E m
                          * real (length (py_slice (y_test D) i (i + nat (batchsize A)))),
                  trace := trace st
                    @ Forward (py_slice (x_test D) i (i + nat (batchsize A)))
                        (py_slice (y_test D) i (i + nat (batchsize A)))
                        loss (mean_squared_error_data E m)
                    # (if i = 0 then [Image_saved] else [])\<rparr>))"

definition test_report :: "dataset \<Rightarrow> ('m, 'o, 'r) state \<Rightarrow> ('m, 'o, 'r) result" where
  "test_report D st =
     (case py_div (sum_loss st) (real (N_test D)) of
        Inl e \<Rightarrow> Inl (e, st)
      | Inr l \<Rightarrow>
          (case py_div (sum_mean_squared_error st) (real (N_test D)) of
             Inl e \<Rightarrow> Inl (e, st)
           | Inr m \<Rightarrow> Inr (st\<lparr>trace := trace st @ [Test_report l m]\<rparr>)))"

definition eval_phase ::
  "('m, 'o, 'r) env \<Rightarrow> args \<Rightarrow> dataset \<Rightarrow> ('m, 'o, 'r) state \<Rightarrow> ('m, 'o, 'r) result" where
  "eval_phase E A D st =
     (case py_range (N_test D) (batchsize A) of
        Inl e \<Rightarrow> Inl (e, st\<lparr>sum_mean_squared_error := 0, sum_loss := 0\<rparr>)
      | Inr starts \<Rightarrow>
          (case for_loop (eval_step E A D) starts
                  (st\<lparr>sum_mean_squared_error := 0, sum_loss := 0\<rparr>) of
             Inl e \<Rightarrow> Inl e
           | Inr st1 \<Rightarrow> test_report D st1))"

subsection \<open>The learning loop and the whole run (lines 98-178)\<close>

definition epoch_body ::
  "('m, 'o, 'r) env \<Rightarrow> args \<Rightarrow> dataset \<Rightarrow> nat \<Rightarrow> ('m, 'o, 'r) state \<Rightarrow> ('m, 'o, 'r) result" where
  "epoch_body E A D ep st =
     (case train_phase E A D ep (st\<lparr>trace := trace st @ [Epoch_start ep]\<rparr>) of
        Inl e \<Rightarrow> Inl e
      | Inr st1 \<Rightarrow> eval_phase E A D st1)"

definition learning_loop ::
  "('m, 'o, 'r) env \<Rightarrow> args \<Rightarrow> dataset \<Rightarrow> ('m, 'o, 'r) state \<Rightarrow> ('m, 'o, 'r) result" where
  "learning_loop E A D st = for_loop (epoch_body E A D) [1..<Suc (nat (epoch A))] st"

definition save :: "('m, 'o, 'r) state \<Rightarrow> ('m, 'o, 'r) state" where
  "save st = st\<lparr>trace := trace st @ [Save_model, Save_optimizer]\<rparr>"

definition run ::
  "('m, 'o, 'r) env \<Rightarrow> args \<Rightarrow> dataset \<Rightarrow> 'r \<Rightarrow> ('m, 'o, 'r) result" where
  "run E A D seed =
     (case build E A seed of
        Inl e \<Rightarrow> Inl e
      | Inr st0 \<Rightarrow>
          (case learning_loop E A D st0 of
             Inl e \<Rightarrow> Inl e
           | Inr st1 \<Rightarrow> Inr (save st1)))"

definition main ::
  "('m, 'o, 'r) env \<Rightarrow> args \<Rightarrow> raw_mnist \<Rightarrow> 'r \<Rightarrow> ('m, 'o, 'r) result" where
  "main E A raw seed = run E A (prepare_dataset raw) seed"

subsection \<open>Reading a trace\<close>

text \<open>
  The optimizer calls of a trace (index batch, loss and reconstruction error read after the
  call), its forward calls (rows, labels, returned loss, reconstruction error read after the
  call), and its two kinds of report lines, each in order of occurrence.
\<close>

definition updates :: "event list \<Rightarrow> (nat list \<times> real \<times> real) list" where
  "updates evs = concat (map (\<lambda>ev. case ev of Update idxs l m \<Rightarrow> [(idxs, l, m)] | _ \<Rightarrow> []) evs)"

definition forwards :: "event list \<Rightarrow> (real list list \<times> int list \<times> real \<times> real) list" where
  "forwards evs = concat (map (\<lambda>ev. case ev of Forward x t l m \<Rightarrow> [(x, t, l, m)] | _ \<Rightarrow> []) evs)"

definition train_reports :: "event list \<Rightarrow> (real \<times> real \<times> real) list" where
  "train_reports evs = concat (map (\<lambda>ev. case ev of Train_report l m s \<Rightarrow> [(l, m, s)] | _ \<Rightarrow> []) evs)"

definition test_reports :: "event list \<Rightarrow> (real \<times> real) list" where
  "test_reports evs = concat (map (\<lambda>ev. case ev of Test_report l m \<Rightarrow> [(l, m)] | _ \<Rightarrow> []) evs)"

text \<open>What was appended to the trace between two states.\<close>

definition new_events :: "('m, 'o, 'r) state \<Rightarrow> ('m, 'o, 'r) state \<Rightarrow> event list" where
  "new_events st st' = drop (length (trace st)) (trace st')"

text \<open>
  The batch-size-weighted average of per-batch values, in the specification's words: each
  value weighted by the size of its batch, over the total size.
\<close>

definition weighted_mean :: "(real \<times> nat) list \<Rightarrow> real" where
  "weighted_mean vs = sum_list (map (\<lambda>(v, k). v * real k) vs) / real (sum_list (map snd vs))"

text \<open>The state a computation ends in, whether it returned or raised.\<close>

definition final_state :: "('m, 'o, 'r) result \<Rightarrow> ('m, 'o, 'r) state" where
  "final_state r = (case r of Inl (e, st) \<Rightarrow> st | Inr st \<Rightarrow> st)"


text \<open>The state right after model, device and optimizer are set up (lines 69-88).\<close>

definition fresh_state :: "('m, 'o, 'r) env \<Rightarrow> 'm \<Rightarrow> 'r \<Rightarrow> ('m, 'o, 'r) state" where
  "fresh_state E m r =
     \<lparr>model = m, optimizer = setup_optimizer E m, rng = r,
      sum_loss = 0, sum_mean_squared_error = 0, trace = []\<rparr>"

subsection \<open>What an epoch is meant to compute\<close>

text \<open>
  The definitions of this subsection do not come from the script. They say, in the words of
  the specification, what the two loops of an epoch are meant to do, and the script's
  loops are compared with them below.

  The partition of a list into contiguous batches of size \<open>b\<close>, the last one shorter when
  \<open>b\<close> does not divide the length.
\<close>

function chunks :: "nat \<Rightarrow> 'a list \<Rightarrow> 'a list list" where
  "chunks b xs = (if b = 0 \<or> xs = [] then [] else take b xs # chunks b (drop b xs))"
  by pat_completeness auto
termination
  by (relation "measure (\<lambda>(b, xs). length xs)") auto

text \<open>The training samples and labels that a batch of indices selects.\<close>

definition batch_at :: "dataset \<Rightarrow> nat list \<Rightarrow> batch" where
  "batch_at D idxs = (map (nth (x_train D)) idxs, map (nth (y_train D)) idxs)"

text \<open>
  Optimizer and model after \<^verbatim>\<open>optimizer.update\<close> has been called on each batch in turn,
  and the per-batch values of such a pass: the loss and the reconstruction error read from
  the model right after the update on the batch, with the size of the batch.
\<close>

definition train_states ::
  "('m, 'o, 'r) env \<Rightarrow> 'o \<times> 'm \<Rightarrow> batch list \<Rightarrow> 'o \<times> 'm" where
  "train_states E s bts = foldl (\<lambda>s bt. update_step E (fst s) (snd s) bt) s bts"

fun train_values ::
  "('m, 'o, 'r) env \<Rightarrow> 'o \<times> 'm \<Rightarrow> batch list \<Rightarrow> (real \<times> real \<times> nat) list" where
  "train_values E s [] = []"
| "train_values E s (bt # bts) =
     (loss_data E (snd (update_step E (fst s) (snd s) bt)),
      mean_squared_error_data E (snd (update_step E (fst s) (snd s) bt)),
      length (snd bt))
     # train_values E (update_step E (fst s) (snd s) bt) bts"

text \<open>
  The same for forward passes: the model after \<^verbatim>\<open>model(x, t)\<close> has been called on each
  batch in turn, and per batch the loss the call returned, the reconstruction error read
  from the model after it, and the size of the batch.
\<close>

definition forward_model :: "('m, 'o, 'r) env \<Rightarrow> 'm \<Rightarrow> batch list \<Rightarrow> 'm" where
  "forward_model E m bts = foldl (\<lambda>m bt. fst (model_call E m bt)) m bts"

fun forward_values ::
  "('m, 'o, 'r) env \<Rightarrow> 'm \<Rightarrow> batch list \<Rightarrow> (real \<times> real \<times> nat) list" where
  "forward_values E m [] = []"
| "forward_values E m (bt # bts) =
     (snd (model_call E m bt),
      mean_squared_error_data E (fst (model_call E m bt)),
      length (snd bt))
     # forward_values E (fst (model_call E m bt)) bts"

text \<open>
  An evaluation pass is a forward pass in which the first batch is also handed to the
  visualisation, after its values have been read.
\<close>

definition eval_model :: "('m, 'o, 'r) env \<Rightarrow> 'm \<Rightarrow> batch list \<Rightarrow> 'm" where
  "eval_model E m bts =
     (case bts of
        [] \<Rightarrow> m
      | bt # rest \<Rightarrow> forward_model E (save_image E (fst (model_call E m bt)) (fst bt)) rest)"

definition eval_values ::
  "('m, 'o, 'r) env \<Rightarrow> 'm \<Rightarrow> batch list \<Rightarrow> (real \<times> real \<times> nat) list" where
  "eval_values E m bts =
     (case bts of
        [] \<Rightarrow> []
      | bt # rest \<Rightarrow>
          (snd (model_call E m bt),
           mean_squared_error_data E (fst (model_call E m bt)),
           length (snd bt))
          # forward_values E (save_image E (fst (model_call E m bt)) (fst bt)) rest)"

text \<open>The batches of the training pass of an epoch, and those of its evaluation pass.\<close>

definition train_batches :: "dataset \<Rightarrow> nat \<Rightarrow> nat list \<Rightarrow> batch list" where
  "train_batches D b perm = map (batch_at D) (chunks b perm)"

definition test_batches :: "dataset \<Rightarrow> nat \<Rightarrow> batch list" where
  "test_batches D b = zip (chunks b (x_test D)) (chunks b (y_test D))"

text \<open>
  For an epoch started in state \<open>st\<close>: the batches of its training pass, cut from the
  permutation drawn in \<open>st\<close>; optimizer and model after that pass; the per-batch values
  of the training pass; and the per-batch values of the evaluation pass, which starts from
  the trained model.
\<close>

definition epoch_train_batches ::
  "('m, 'o, 'r) env \<Rightarrow> args \<Rightarrow> dataset \<Rightarrow> ('m, 'o, 'r) state \<Rightarrow> batch list" where
  "epoch_train_batches E A D st =
     train_batches D (nat (batchsize A)) (fst (permutation E (N_train D) (rng st)))"

definition epoch_trained ::
  "('m, 'o, 'r) env \<Rightarrow> args \<Rightarrow> dataset \<Rightarrow> ('m, 'o, 'r) state \<Rightarrow> 'o \<times> 'm" where
  "epoch_trained E A D st =
     train_states E (optimizer st, model st) (epoch_train_batches E A D st)"

definition epoch_train_values ::
  "('m, 'o, 'r) env \<Rightarrow> args \<Rightarrow> dataset \<Rightarrow> ('m, 'o, 'r) state \<Rightarrow> (real \<times> real \<times> nat) list" where
  "epoch_train_values E A D st =
     train_values E (optimizer st, model st) (epoch_train_batches E A D st)"

definition epoch_test_values ::
  "('m, 'o, 'r) env \<Rightarrow> args \<Rightarrow> dataset \<Rightarrow> ('m, 'o, 'r) state \<Rightarrow> (real \<times> real \<times> nat) list" where
  "epoch_test_values E A D st =
     eval_values E (snd (epoch_trained E A D st)) (test_batches D (nat (batchsize A)))"


subsection \<open>A small concrete instance\<close>

text \<open>
  Collaborators simple enough to run by hand: the model is a pair of one weight and a count
  of forward calls, an update adds the batch size to the weight, the permutation reverses
  the indices, and only the files \<^verbatim>\<open>ok.model\<close> and \<^verbatim>\<open>ok.state\<close> can be loaded.
  The dataset has 7 training and 4 test samples; the batch size is 3.
\<close>

definition toy_env :: "(int \<times> nat, nat, nat) env" where
  "toy_env =
     \<lparr> construct = (\<lambda>n r. ((case n of Normal \<Rightarrow> 0 | Bn \<Rightarrow> 1, 0), Suc r)),
       to_device = (\<lambda>g m. if g = 0 then Some m else None),
       setup_optimizer = (\<lambda>m. 0),
       load_npz_model = (\<lambda>p m. if p = ''ok.model'' then Some (7, 0) else None),
       load_npz_optimizer = (\<lambda>p opt. if p = ''ok.state'' then Some 3 else None),
       permutation = (\<lambda>n r. (rev [0..<n], Suc r)),
       update_step = (\<lambda>opt m b. (Suc opt, (fst m + int (length (snd b)), snd m))),
       loss_data = (\<lambda>m. real_of_int (fst m)),
       mean_squared_error_data = (\<lambda>m. real_of_int (fst m) / 2),
       model_call = (\<lambda>m b. ((fst m, Suc (snd m)), real (length (snd b)))),
       save_image = (\<lambda>m x. m),
       elapsed_time = (\<lambda>e. 2) \<rparr>"

definition toy_args :: args where
  "toy_args = \<lparr> initmodel = [], resume = [], net = Normal, gpu = - 1, epoch = 1, batchsize = 3 \<rparr>"

definition toy_data :: dataset where
  "toy_data =
     \<lparr> N_train = 7, N_test = 4,
       x_train = [[0], [1/2], [1], [0], [1/2], [1], [0]],
       x_test = [[1], [0], [1/2], [1]],
       y_train = [0, 1, 2, 3, 4, 5, 6],
       y_test = [7, 8, 9, 0] \<rparr>"

definition toy_state :: "(int \<times> nat, nat, nat) state" where
  "toy_state = \<lparr> model = (0, 0), optimizer = 0, rng = 0,
                 sum_loss = 5, sum_mean_squared_error = 5, trace = [] \<rparr>"

text \<open>A dataset of exactly 60000 samples.\<close>

definition exact_60000 :: raw_mnist where
  "exact_60000 = \<lparr> raw_data = replicate 60000 [0], raw_target = replicate 60000 0 \<rparr>"


text \<open>A dataset of two samples.\<close>

definition tiny_raw :: raw_mnist where
  "tiny_raw = \<lparr> raw_data = [[0, 255], [128, 64]], raw_target = [3, 7] \<rparr>"


text \<open>
  Collaborators that record what they are handed: the optimizer state is the list of the
  batches \<^verbatim>\<open>optimizer.update\<close> was called on, and the model carries, beside one weight,
  the list of the batches it was called on directly.
\<close>

definition rec_env :: "(int \<times> batch list, batch list, nat) env" where
  "rec_env =
     \<lparr> construct = (\<lambda>n r. ((0, []), Suc r)),
       to_device = (\<lambda>g m. Some m),
       setup_optimizer = (\<lambda>m. []),
       load_npz_model = (\<lambda>p m. None),
       load_npz_optimizer = (\<lambda>p opt. None),
       permutation = (\<lambda>n r. (rev [0..<n], Suc r)),
       update_step = (\<lambda>opt m bt. (opt @ [bt], (fst m + int (length (snd bt)), snd m))),
       loss_data = (\<lambda>m. real_of_int (fst m)),
       mean_squared_error_data = (\<lambda>m. real_of_int (fst m) / 2),
       model_call = (\<lambda>m bt. ((fst m, snd m @ [bt]), real (length (snd bt)))),
       save_image = (\<lambda>m x. m),
       elapsed_time = (\<lambda>e. 2) \<rparr>"

definition rec_state :: "(int \<times> batch list, batch list, nat) state" where
  "rec_state = \<lparr> model = (0, []), optimizer = [], rng = 0,
                 sum_loss = 5, sum_mean_squared_error = 5, trace = [] \<rparr>"

section \<open>Batching\<close>

lemma ceil_div_not_dvd:
  assumes b: "0 < (b::nat)" and nd: "\<not> b dvd n"
  shows "(n + b - 1) div b = Suc (n div b)"
proof (rule div_nat_eqI)
  have r: "0 < n mod b" using nd by (simp add: dvd_eq_mod_eq_0)
  have r2: "n mod b < b" using b by simp
  have n: "n = (n div b) * b + n mod b" by simp
  have "b * Suc (n div b) = (n div b) * b + b" by (simp add: mult.commute)
  then show "b * Suc (n div b) \<le> n + b - 1" using r n by linarith
  have "b * Suc (Suc (n div b)) = (n div b) * b + b + b" by (simp add: mult.commute)
  then show "n + b - 1 < b * Suc (Suc (n div b))" using r2 n b by linarith
qed

lemma ceil_div_dvd:
  assumes b: "0 < (b::nat)" and d: "b dvd n"
  shows "(n + b - 1) div b = n div b"
proof (rule div_nat_eqI)
  have n: "n = (n div b) * b" using d by simp
  show "b * (n div b) \<le> n + b - 1" using n b by (simp add: mult.commute)
  have "b * Suc (n div b) = (n div b) * b + b" by (simp add: mult.commute)
  then show "n + b - 1 < b * Suc (n div b)" using n b by linarith
qed

lemma length_py_slice: "length (py_slice xs i j) = min (j - i) (length xs - i)"
  by (simp add: py_slice_def)

section \<open>The loops and their traces\<close>

lemmas ext_defs = updates_def forwards_def train_reports_def test_reports_def

lemma train_step_Inr:
  assumes "train_step E A D perm ep i st = Inr st'"
  shows "\<exists>l m g. trace st' = trace st @ Update (py_slice perm i (i + nat (batchsize A))) l m # g
          \<and> updates g = [] \<and> forwards g = [] \<and> train_reports g = [] \<and> test_reports g = []
          \<and> sum_loss st' = sum_loss st + l * real (length (py_slice perm i (i + nat (batchsize A))))
          \<and> sum_mean_squared_error st' = sum_mean_squared_error st
               + m * real (length (py_slice perm i (i + nat (batchsize A))))
          \<and> rng st' = rng st"
  using assms
  by (auto simp: train_step_def gather_def ext_defs split: sum.splits prod.splits if_splits)

lemma train_loop_Inr:
  "for_loop (train_step E A D perm ep) is st = Inr st' \<Longrightarrow>
   \<exists>evs. trace st' = trace st @ evs
     \<and> map fst (updates evs) = map (\<lambda>i. py_slice perm i (i + nat (batchsize A))) is
     \<and> forwards evs = [] \<and> train_reports evs = [] \<and> test_reports evs = []
     \<and> sum_loss st' = sum_loss st + sum_list (map (\<lambda>(idxs, l, m). l * real (length idxs)) (updates evs))
     \<and> sum_mean_squared_error st' = sum_mean_squared_error st
          + sum_list (map (\<lambda>(idxs, l, m). m * real (length idxs)) (updates evs))
     \<and> rng st' = rng st"
proof (induction "is" arbitrary: st)
  case Nil
  then show ?case by (simp add: ext_defs)
next
  case (Cons i "is")
  from Cons.prems obtain st1 where s1: "train_step E A D perm ep i st = Inr st1"
    and rest: "for_loop (train_step E A D perm ep) is st1 = Inr st'"
    by (auto split: sum.splits)
  from train_step_Inr[OF s1] obtain l m g where
    t1: "trace st1 = trace st @ Update (py_slice perm i (i + nat (batchsize A))) l m # g"
    and g: "updates g = []" "forwards g = []" "train_reports g = []" "test_reports g = []"
    and a1: "sum_loss st1 = sum_loss st + l * real (length (py_slice perm i (i + nat (batchsize A))))"
    and b1: "sum_mean_squared_error st1 = sum_mean_squared_error st
               + m * real (length (py_slice perm i (i + nat (batchsize A))))"
    and r1: "rng st1 = rng st"
    by blast
  from Cons.IH[OF rest] obtain evs where
    t2: "trace st' = trace st1 @ evs"
    and u2: "map fst (updates evs) = map (\<lambda>i. py_slice perm i (i + nat (batchsize A))) is"
    and n2: "forwards evs = []" "train_reports evs = []" "test_reports evs = []"
    and a2: "sum_loss st' = sum_loss st1 + sum_list (map (\<lambda>(idxs, l, m). l * real (length idxs)) (updates evs))"
    and b2: "sum_mean_squared_error st' = sum_mean_squared_error st1
          + sum_list (map (\<lambda>(idxs, l, m). m * real (length idxs)) (updates evs))"
    and r2: "rng st' = rng st1"
    by blast
  let ?evs = "Update (py_slice perm i (i + nat (batchsize A))) l m # g @ evs"
  have u: "updates ?evs = (py_slice perm i (i + nat (batchsize A)), l, m) # updates evs"
    using g by (simp add: updates_def)
  have "trace st' = trace st @ ?evs" using t1 t2 by simp
  moreover have "map fst (updates ?evs) = map (\<lambda>i. py_slice perm i (i + nat (batchsize A))) (i # is)"
    using u u2 by simp
  moreover have "forwards ?evs = []" "train_reports ?evs = []" "test_reports ?evs = []"
    using g n2 by (simp_all add: forwards_def train_reports_def test_reports_def)
  moreover have "sum_loss st' = sum_loss st + sum_list (map (\<lambda>(idxs, l, m). l * real (length idxs)) (updates ?evs))"
    using a1 a2 by (simp only: u) simp
  moreover have "sum_mean_squared_error st' = sum_mean_squared_error st
          + sum_list (map (\<lambda>(idxs, l, m). m * real (length idxs)) (updates ?evs))"
    using b1 b2 by (simp only: u) simp
  moreover have "rng st' = rng st" using r1 r2 by simp
  ultimately show ?case by blast
qed

lemma py_range_pos:
  "0 < b \<Longrightarrow> py_range n b = Inr (map (\<lambda>k. k * nat b) [0..<(n + nat b - 1) div nat b])"
  by (simp add: py_range_def)

lemma batches_lengths:
  assumes b: "0 < b" and nd: "\<not> nat b dvd n" and r: "py_range n b = Inr starts"
    and len: "length xs = n"
  shows "map length (map (\<lambda>i. py_slice xs i (i + nat b)) starts)
         = replicate (n div nat b) (nat b) @ [n mod nat b]"
proof -
  let ?b = "nat b" and ?q = "n div nat b"
  have bp: "0 < ?b" using b by simp
  have s: "starts = map (\<lambda>k. k * ?b) [0..<Suc ?q]"
    using r py_range_pos[OF b, of n] ceil_div_not_dvd[OF bp nd] by simp
  have full: "\<And>k. k < ?q \<Longrightarrow> length (py_slice xs (k * ?b) (k * ?b + ?b)) = ?b"
  proof -
    fix k assume k: "k < ?q"
    then have "Suc k \<le> ?q" by simp
    then have "Suc k * ?b \<le> ?q * ?b" by (rule mult_le_mono1)
    also have "\<dots> \<le> n" by simp
    finally have "k * ?b + ?b \<le> n" by (simp add: add.commute)
    then show "length (py_slice xs (k * ?b) (k * ?b + ?b)) = ?b"
      using len by (simp add: length_py_slice)
  qed
  have last: "length (py_slice xs (?q * ?b) (?q * ?b + ?b)) = n mod ?b"
  proof -
    have "n - ?q * ?b = n mod ?b" by (simp add: minus_div_mult_eq_mod)
    moreover have "n mod ?b < ?b" using bp by simp
    ultimately show ?thesis using len by (simp add: length_py_slice)
  qed
  have "map length (map (\<lambda>i. py_slice xs i (i + ?b)) starts)
        = map (\<lambda>k. length (py_slice xs (k * ?b) (k * ?b + ?b))) [0..<?q]
          @ [length (py_slice xs (?q * ?b) (?q * ?b + ?b))]"
    by (simp add: s comp_def)
  also have "map (\<lambda>k. length (py_slice xs (k * ?b) (k * ?b + ?b))) [0..<?q]
             = map (\<lambda>k. ?b) [0..<?q]"
    using full by (intro map_cong) simp_all
  also have "map (\<lambda>k. ?b) [0..<?q] = replicate ?q ?b"
    by (simp add: map_replicate_const)
  finally show ?thesis using last by simp
qed

lemma eval_step_Inr:
  assumes "eval_step E A D i st = Inr st'"
  shows "\<exists>l m g. trace st' = trace st
             @ Forward (py_slice (x_test D) i (i + nat (batchsize A)))
                 (py_slice (y_test D) i (i + nat (batchsize A))) l m # g
          \<and> updates g = [] \<and> forwards g = [] \<and> train_reports g = [] \<and> test_reports g = []
          \<and> sum_loss st' = sum_loss st
               + l * real (length (py_slice (y_test D) i (i + nat (batchsize A))))
          \<and> sum_mean_squared_error st' = sum_mean_squared_error st
               + m * real (length (py_slice (y_test D) i (i + nat (batchsize A))))
          \<and> rng st' = rng st \<and> optimizer st' = optimizer st"
  using assms
  by (auto simp: eval_step_def ext_defs split: prod.splits if_splits)

lemma eval_loop_Inr:
  "for_loop (eval_step E A D) is st = Inr st' \<Longrightarrow>
   \<exists>evs. trace st' = trace st @ evs
     \<and> map (\<lambda>(x, t, l, m). (x, t)) (forwards evs)
         = map (\<lambda>i. (py_slice (x_test D) i (i + nat (batchsize A)),
                      py_slice (y_test D) i (i + nat (batchsize A)))) is
     \<and> updates evs = [] \<and> train_reports evs = [] \<and> test_reports evs = []
     \<and> sum_loss st' = sum_loss st + sum_list (map (\<lambda>(x, t, l, m). l * real (length t)) (forwards evs))
     \<and> sum_mean_squared_error st' = sum_mean_squared_error st
          + sum_list (map (\<lambda>(x, t, l, m). m * real (length t)) (forwards evs))
     \<and> rng st' = rng st \<and> optimizer st' = optimizer st"
proof (induction "is" arbitrary: st)
  case Nil
  then show ?case by (simp add: ext_defs)
next
  case (Cons i "is")
  let ?x = "py_slice (x_test D) i (i + nat (batchsize A))"
  let ?t = "py_slice (y_test D) i (i + nat (batchsize A))"
  from Cons.prems obtain st1 where s1: "eval_step E A D i st = Inr st1"
    and rest: "for_loop (eval_step E A D) is st1 = Inr st'"
    by (auto split: sum.splits)
  from eval_step_Inr[OF s1] obtain l m g where
    t1: "trace st1 = trace st @ Forward ?x ?t l m # g"
    and g: "updates g = []" "forwards g = []" "train_reports g = []" "test_reports g = []"
    and a1: "sum_loss st1 = sum_loss st + l * real (length ?t)"
    and b1: "sum_mean_squared_error st1 = sum_mean_squared_error st + m * real (length ?t)"
    and r1: "rng st1 = rng st" "optimizer st1 = optimizer st"
    by blast
  from Cons.IH[OF rest] obtain evs where
    t2: "trace st' = trace st1 @ evs"
    and u2: "map (\<lambda>(x, t, l, m). (x, t)) (forwards evs)
         = map (\<lambda>i. (py_slice (x_test D) i (i + nat (batchsize A)),
                      py_slice (y_test D) i (i + nat (batchsize A)))) is"
    and n2: "updates evs = []" "train_reports evs = []" "test_reports evs = []"
    and a2: "sum_loss st' = sum_loss st1 + sum_list (map (\<lambda>(x, t, l, m). l * real (length t)) (forwards evs))"
    and b2: "sum_mean_squared_error st' = sum_mean_squared_error st1
          + sum_list (map (\<lambda>(x, t, l, m). m * real (length t)) (forwards evs))"
    and r2: "rng st' = rng st1" "optimizer st' = optimizer st1"
    by blast
  let ?evs = "Forward ?x ?t l m # g @ evs"
  have u: "forwards ?evs = (?x, ?t, l, m) # forwards evs"
    using g by (simp add: forwards_def)
  have "trace st' = trace st @ ?evs" using t1 t2 by simp
  moreover have "map (\<lambda>(x, t, l, m). (x, t)) (forwards ?evs)
         = map (\<lambda>i. (py_slice (x_test D) i (i + nat (batchsize A)),
                      py_slice (y_test D) i (i + nat (batchsize A)))) (i # is)"
    using u u2 by simp
  moreover have "updates ?evs = []" "train_reports ?evs = []" "test_reports ?evs = []"
    using g n2 by (simp_all add: updates_def train_reports_def test_reports_def)
  moreover have "sum_loss st' = sum_loss st + sum_list (map (\<lambda>(x, t, l, m). l * real (length t)) (forwards ?evs))"
    using a1 a2 by (simp only: u) simp
  moreover have "sum_mean_squared_error st' = sum_mean_squared_error st
          + sum_list (map (\<lambda>(x, t, l, m). m * real (length t)) (forwards ?evs))"
    using b1 b2 by (simp only: u) simp
  moreover have "rng st' = rng st" "optimizer st' = optimizer st" using r1 r2 by simp_all
  ultimately show ?case by blast
qed

lemma eval_loop_total: "\<exists>st'. for_loop (eval_step E A D) is st = Inr st'"
  by (induction "is" arbitrary: st) (auto simp: eval_step_def split: prod.splits)

lemma train_report_Inr:
  assumes "train_report E D ep st = Inr st'"
  shows "trace st' = trace st @ [Train_report (sum_loss st / real (N_train D))
            (sum_mean_squared_error st / real (N_train D)) (real (N_train D) / elapsed_time E ep)]
         \<and> N_train D \<noteq> 0 \<and> elapsed_time E ep \<noteq> 0 \<and> rng st' = rng st
         \<and> model st' = model st \<and> optimizer st' = optimizer st"
  using assms by (auto simp: train_report_def py_div_def split: if_splits)

lemma test_report_Inr:
  assumes "test_report D st = Inr st'"
  shows "trace st' = trace st @ [Test_report (sum_loss st / real (N_test D))
            (sum_mean_squared_error st / real (N_test D))]
         \<and> N_test D \<noteq> 0 \<and> rng st' = rng st
         \<and> model st' = model st \<and> optimizer st' = optimizer st"
  using assms by (auto simp: test_report_def py_div_def split: if_splits)

lemma batches_lengths_gen:
  assumes b: "0 < b" and r: "py_range n b = Inr starts" and len: "length xs = n"
  shows "map length (map (\<lambda>i. py_slice xs i (i + nat b)) starts)
         = replicate (n div nat b) (nat b) @ (if nat b dvd n then [] else [n mod nat b])"
proof (cases "nat b dvd n")
  case False
  then show ?thesis using batches_lengths[OF b False r len] by simp
next
  case True
  let ?b = "nat b" and ?q = "n div nat b"
  have bp: "0 < ?b" using b by simp
  have s: "starts = map (\<lambda>k. k * ?b) [0..<?q]"
    using r py_range_pos[OF b, of n] ceil_div_dvd[OF bp True] by simp
  have full: "\<And>k. k < ?q \<Longrightarrow> length (py_slice xs (k * ?b) (k * ?b + ?b)) = ?b"
  proof -
    fix k assume k: "k < ?q"
    then have "Suc k \<le> ?q" by simp
    then have "Suc k * ?b \<le> ?q * ?b" by (rule mult_le_mono1)
    also have "\<dots> \<le> n" by simp
    finally have "k * ?b + ?b \<le> n" by (simp add: add.commute)
    then show "length (py_slice xs (k * ?b) (k * ?b + ?b)) = ?b"
      using len by (simp add: length_py_slice)
  qed
  have "map length (map (\<lambda>i. py_slice xs i (i + ?b)) starts)
        = map (\<lambda>k. length (py_slice xs (k * ?b) (k * ?b + ?b))) [0..<?q]"
    by (simp add: s comp_def)
  also have "\<dots> = map (\<lambda>k. ?b) [0..<?q]"
    using full by (intro map_cong) simp_all
  also have "\<dots> = replicate ?q ?b"
    by (simp add: map_replicate_const)
  finally show ?thesis using True by simp
qed

lemma epoch_body_Inr:
  assumes "epoch_body E A D ep st = Inr st'"
  shows "\<exists>st1. train_phase E A D ep (st\<lparr>trace := trace st @ [Epoch_start ep]\<rparr>) = Inr st1
           \<and> eval_phase E A D st1 = Inr st'"
  using assms by (auto simp: epoch_body_def split: sum.splits)

lemma updates_Nil [simp]: "updates [] = []" by (simp add: updates_def)
lemma forwards_Nil [simp]: "forwards [] = []" by (simp add: forwards_def)
lemma train_reports_Nil [simp]: "train_reports [] = []" by (simp add: train_reports_def)
lemma test_reports_Nil [simp]: "test_reports [] = []" by (simp add: test_reports_def)

lemma updates_append [simp]: "updates (a @ b) = updates a @ updates b"
  by (simp add: updates_def)
lemma forwards_append [simp]: "forwards (a @ b) = forwards a @ forwards b"
  by (simp add: forwards_def)
lemma train_reports_append [simp]: "train_reports (a @ b) = train_reports a @ train_reports b"
  by (simp add: train_reports_def)
lemma test_reports_append [simp]: "test_reports (a @ b) = test_reports a @ test_reports b"
  by (simp add: test_reports_def)

lemma updates_Cons [simp]:
  "updates (ev # evs) = (case ev of Update idxs l m \<Rightarrow> [(idxs, l, m)] | _ \<Rightarrow> []) @ updates evs"
  by (simp add: updates_def)
lemma forwards_Cons [simp]:
  "forwards (ev # evs) = (case ev of Forward x t l m \<Rightarrow> [(x, t, l, m)] | _ \<Rightarrow> []) @ forwards evs"
  by (simp add: forwards_def)
lemma train_reports_Cons [simp]:
  "train_reports (ev # evs) = (case ev of Train_report l m s \<Rightarrow> [(l, m, s)] | _ \<Rightarrow> []) @ train_reports evs"
  by (simp add: train_reports_def)
lemma test_reports_Cons [simp]:
  "test_reports (ev # evs) = (case ev of Test_report l m \<Rightarrow> [(l, m)] | _ \<Rightarrow> []) @ test_reports evs"
  by (simp add: test_reports_def)


section \<open>The evaluation phase\<close>

lemma final_state_simps [simp]: "final_state (Inl (e, st)) = st" "final_state (Inr st) = st"
  by (simp_all add: final_state_def)




lemma py_range_empty: "b \<noteq> 0 \<Longrightarrow> py_range 0 b = Inr []"
  by (simp add: py_range_def)

lemma py_range_ok: "b \<noteq> 0 \<Longrightarrow> \<exists>starts. py_range n b = Inr starts"
  by (simp add: py_range_def)


section \<open>Dataset preparation\<close>

text \<open>A label that fits 32 bits is not changed by the conversion.\<close>

lemma astype_int32_id: "- (2 ^ 31) \<le> v \<Longrightarrow> v < 2 ^ 31 \<Longrightarrow> astype_int32 v = v"
  unfolding astype_int32_def
  by (simp add: signed_of_int signed_take_bit_int_eq_self)


section \<open>Set-up and the whole run\<close>

lemma build_unfold:
  assumes c: "construct E (net A) seed = (m0, r)"
    and dev: "(if 0 \<le> gpu A then to_device E (gpu A) m0 else Some m0) = Some m"
  shows "build E A seed = init_resume E A (fresh_state E m r)"
  using c dev by (simp add: build_def fresh_state_def)


lemma for_loop_final_invariant:
  assumes step: "\<And>i s. I s \<Longrightarrow> I (final_state (body i s))"
  shows "I st \<Longrightarrow> I (final_state (for_loop body is st))"
proof (induction "is" arbitrary: st)
  case Nil
  then show ?case by simp
next
  case (Cons i "is")
  show ?case
  proof (cases "body i st")
    case (Inl e)
    then show ?thesis using step[OF Cons.prems, of i] by (cases e) simp
  next
    case (Inr st1)
    then have "I st1" using step[OF Cons.prems, of i] by simp
    then show ?thesis using Cons.IH Inr by simp
  qed
qed

lemma for_loop_returns:
  assumes step: "\<And>i s. \<not> isl (body i s)"
  shows "\<not> isl (for_loop body is st)"
proof (induction "is" arbitrary: st)
  case Nil
  show ?case by simp
next
  case (Cons i "is")
  then show ?case using step[of i st] by (cases "body i st") simp_all
qed

lemma build_trace:
  assumes "build E A seed = Inr st0"
  shows "updates (trace st0) = [] \<and> forwards (trace st0) = []
         \<and> Save_model \<notin> set (trace st0) \<and> Save_optimizer \<notin> set (trace st0)"
  using assms
  by (auto simp: build_def init_resume_def Let_def split: prod.splits option.splits if_splits)

lemma epoch_body_nonpositive_batchsize:
  assumes b: "batchsize A \<le> 0"
    and inv: "model s = m \<and> optimizer s = opt \<and> updates (trace s) = [] \<and> forwards (trace s) = []
              \<and> Save_model \<notin> set (trace s) \<and> Save_optimizer \<notin> set (trace s)"
  shows "model (final_state (epoch_body E A D ep s)) = m
       \<and> optimizer (final_state (epoch_body E A D ep s)) = opt
       \<and> updates (trace (final_state (epoch_body E A D ep s))) = []
       \<and> forwards (trace (final_state (epoch_body E A D ep s))) = []
       \<and> Save_model \<notin> set (trace (final_state (epoch_body E A D ep s)))
       \<and> Save_optimizer \<notin> set (trace (final_state (epoch_body E A D ep s)))"
proof (cases "batchsize A = 0")
  case True
  then show ?thesis using inv
    by (simp add: epoch_body_def train_phase_def py_range_def split: prod.splits)
next
  case False
  then have neg: "batchsize A < 0" using b by simp
  then show ?thesis using inv
    by (simp add: epoch_body_def train_phase_def eval_phase_def train_report_def test_report_def
        py_div_def py_range_def split: prod.splits)
qed

lemma epoch_body_negative_batchsize_returns:
  assumes "batchsize A < 0" "N_train D \<noteq> 0" "N_test D \<noteq> 0" "elapsed_time E ep \<noteq> 0"
  shows "\<not> isl (epoch_body E A D ep s)"
  using assms
  by (simp add: epoch_body_def train_phase_def eval_phase_def train_report_def test_report_def
        py_div_def py_range_def split: prod.splits)


section \<open>The loops compute what an epoch is meant to compute\<close>

subsection \<open>The partition into batches\<close>

declare chunks.simps [simp del]

lemma chunks_Nil [simp]: "chunks b [] = []"
  by (simp add: chunks.simps)

lemma chunks_step: "0 < b \<Longrightarrow> xs \<noteq> [] \<Longrightarrow> chunks b xs = take b xs # chunks b (drop b xs)"
  by (subst chunks.simps) simp

lemma concat_chunks: "0 < b \<Longrightarrow> concat (chunks b xs) = xs"
proof (induction b xs rule: chunks.induct)
  case (1 b xs)
  show ?case
  proof (cases "xs = []")
    case True
    then show ?thesis by simp
  next
    case False
    then show ?thesis using 1 by (simp add: chunks_step)
  qed
qed

lemma ceil_div_step:
  assumes b: "0 < (b::nat)" and n: "0 < n"
  shows "(n + b - 1) div b = Suc ((n - b + b - 1) div b)"
proof (cases "b \<le> n")
  case True
  then have "n + b - 1 = (n - b + b - 1) + b" using b n by simp
  then have "(n + b - 1) div b = ((n - b + b - 1) + b) div b" by simp
  also have "\<dots> = Suc ((n - b + b - 1) div b)" using b by (simp only: div_add_self2)
  finally show ?thesis .
next
  case False
  then have z: "n - b = 0" by simp
  have "(b - 1) div b = 0" using b by simp
  moreover have "(n + b - 1) div b = 1"
  proof (rule div_nat_eqI)
    show "b * 1 \<le> n + b - 1" using n by simp
    show "n + b - 1 < b * Suc 1" using False b by simp
  qed
  ultimately show ?thesis using z by simp
qed

lemma slices_eq_chunks:
  "0 < b \<Longrightarrow>
   map (\<lambda>k. py_slice xs (k * b) (k * b + b)) [0..<(length xs + b - 1) div b] = chunks b xs"
proof (induction b xs rule: chunks.induct)
  case (1 b xs)
  show ?case
  proof (cases "xs = []")
    case True
    then show ?thesis using "1.prems" by simp
  next
    case False
    let ?m' = "(length (drop b xs) + b - 1) div b"
    have m: "(length xs + b - 1) div b = Suc ?m'"
      using ceil_div_step[OF "1.prems", of "length xs"] False by simp
    have ih: "map (\<lambda>k. py_slice (drop b xs) (k * b) (k * b + b)) [0..<?m'] = chunks b (drop b xs)"
      using 1 False by simp
    have sh: "py_slice xs (Suc k * b) (Suc k * b + b) = py_slice (drop b xs) (k * b) (k * b + b)" for k
      by (simp add: py_slice_def add.commute)
    have "[0..<Suc ?m'] = 0 # map Suc [0..<?m']"
      by (simp add: upt_conv_Cons map_Suc_upt del: upt_Suc)
    then have "map (\<lambda>k. py_slice xs (k * b) (k * b + b)) [0..<Suc ?m']
          = py_slice xs 0 b # map (\<lambda>k. py_slice xs (Suc k * b) (Suc k * b + b)) [0..<?m']"
      by (simp add: comp_def del: upt_Suc)
    also have "\<dots> = take b xs # chunks b (drop b xs)"
      using ih by (simp only: sh) (simp add: py_slice_def)
    finally show ?thesis using m chunks_step[OF "1.prems" False] by simp
  qed
qed

lemma range_slices_eq_chunks:
  assumes b: "0 < b" and r: "py_range n b = Inr starts" and len: "length xs = n"
  shows "map (\<lambda>i. py_slice xs i (i + nat b)) starts = chunks (nat b) xs"
proof -
  have s: "starts = map (\<lambda>k. k * nat b) [0..<(n + nat b - 1) div nat b]"
    using r py_range_pos[OF b, of n] by simp
  have "map (\<lambda>i. py_slice xs i (i + nat b)) starts
        = map (\<lambda>k. py_slice xs (k * nat b) (k * nat b + nat b)) [0..<(length xs + nat b - 1) div nat b]"
    by (simp add: s len comp_def)
  then show ?thesis using slices_eq_chunks[of "nat b" xs] b by simp
qed

lemma lengths_chunks:
  assumes b: "0 < b"
  shows "map length (chunks b xs)
         = replicate (length xs div b) b @ (if b dvd length xs then [] else [length xs mod b])"
proof -
  have r: "py_range (length xs) (int b) = Inr (map (\<lambda>k. k * b) [0..<(length xs + b - 1) div b])"
    using b by (simp add: py_range_def)
  have ib: "0 < int b" using b by simp
  have "map length (chunks (nat (int b)) xs)
         = replicate (length xs div nat (int b)) (nat (int b))
           @ (if nat (int b) dvd length xs then [] else [length xs mod nat (int b)])"
    using batches_lengths_gen[OF ib r refl]
    by (simp only: range_slices_eq_chunks[OF ib r refl])
  then show ?thesis by simp
qed

subsection \<open>The training loop\<close>

lemma train_step_refines:
  assumes "train_step E A D perm ep i st = Inr st'"
  shows "(optimizer st', model st')
           = update_step E (optimizer st) (model st)
               (batch_at D (py_slice perm i (i + nat (batchsize A))))
       \<and> sum_loss st' = sum_loss st
           + loss_data E (model st') * real (length (py_slice perm i (i + nat (batchsize A))))
       \<and> sum_mean_squared_error st' = sum_mean_squared_error st
           + mean_squared_error_data E (model st')
               * real (length (py_slice perm i (i + nat (batchsize A))))"
  using assms
  by (auto simp: train_step_def gather_def batch_at_def split: sum.splits prod.splits if_splits)

lemma train_loop_refines:
  "for_loop (train_step E A D perm ep) is st = Inr st' \<Longrightarrow>
   (optimizer st', model st')
     = train_states E (optimizer st, model st)
         (map (\<lambda>i. batch_at D (py_slice perm i (i + nat (batchsize A)))) is)
   \<and> sum_loss st' = sum_loss st
       + sum_list (map (\<lambda>(l, m, k). l * real k)
           (train_values E (optimizer st, model st)
              (map (\<lambda>i. batch_at D (py_slice perm i (i + nat (batchsize A)))) is)))
   \<and> sum_mean_squared_error st' = sum_mean_squared_error st
       + sum_list (map (\<lambda>(l, m, k). m * real k)
           (train_values E (optimizer st, model st)
              (map (\<lambda>i. batch_at D (py_slice perm i (i + nat (batchsize A)))) is)))"
proof (induction "is" arbitrary: st)
  case Nil
  then show ?case by (simp add: train_states_def)
next
  case (Cons i "is")
  let ?bt = "batch_at D (py_slice perm i (i + nat (batchsize A)))"
  from Cons.prems obtain st1 where s1: "train_step E A D perm ep i st = Inr st1"
    and rest: "for_loop (train_step E A D perm ep) is st1 = Inr st'"
    by (auto split: sum.splits)
  from train_step_refines[OF s1] have
    u: "update_step E (optimizer st) (model st) ?bt = (optimizer st1, model st1)"
    and a: "sum_loss st1 = sum_loss st
           + loss_data E (model st1) * real (length (py_slice perm i (i + nat (batchsize A))))"
    and c: "sum_mean_squared_error st1 = sum_mean_squared_error st
           + mean_squared_error_data E (model st1)
               * real (length (py_slice perm i (i + nat (batchsize A))))"
    by simp_all
  have k: "length (snd ?bt) = length (py_slice perm i (i + nat (batchsize A)))"
    by (simp add: batch_at_def)
  note ih = Cons.IH[OF rest]
  show ?case
    using ih a c k by (simp add: train_states_def u)
qed

subsection \<open>The evaluation loop\<close>

lemma eval_step_refines:
  assumes "eval_step E A D i st = Inr st'"
  shows "model st'
           = (if i = 0
              then save_image E
                     (fst (model_call E (model st)
                        (py_slice (x_test D) i (i + nat (batchsize A)),
                         py_slice (y_test D) i (i + nat (batchsize A)))))
                     (py_slice (x_test D) i (i + nat (batchsize A)))
              else fst (model_call E (model st)
                        (py_slice (x_test D) i (i + nat (batchsize A)),
                         py_slice (y_test D) i (i + nat (batchsize A)))))
       \<and> sum_loss st' = sum_loss st
           + snd (model_call E (model st)
                        (py_slice (x_test D) i (i + nat (batchsize A)),
                         py_slice (y_test D) i (i + nat (batchsize A))))
             * real (length (py_slice (y_test D) i (i + nat (batchsize A))))
       \<and> sum_mean_squared_error st' = sum_mean_squared_error st
           + mean_squared_error_data E
               (fst (model_call E (model st)
                        (py_slice (x_test D) i (i + nat (batchsize A)),
                         py_slice (y_test D) i (i + nat (batchsize A)))))
             * real (length (py_slice (y_test D) i (i + nat (batchsize A))))"
  using assms
  by (auto simp: eval_step_def split: prod.splits)

lemma eval_tail_refines:
  "\<forall>i \<in> set is. i \<noteq> 0 \<Longrightarrow> for_loop (eval_step E A D) is st = Inr st' \<Longrightarrow>
   model st'
     = forward_model E (model st)
         (map (\<lambda>i. (py_slice (x_test D) i (i + nat (batchsize A)),
                     py_slice (y_test D) i (i + nat (batchsize A)))) is)
   \<and> sum_loss st' = sum_loss st
       + sum_list (map (\<lambda>(l, m, k). l * real k)
           (forward_values E (model st)
              (map (\<lambda>i. (py_slice (x_test D) i (i + nat (batchsize A)),
                          py_slice (y_test D) i (i + nat (batchsize A)))) is)))
   \<and> sum_mean_squared_error st' = sum_mean_squared_error st
       + sum_list (map (\<lambda>(l, m, k). m * real k)
           (forward_values E (model st)
              (map (\<lambda>i. (py_slice (x_test D) i (i + nat (batchsize A)),
                          py_slice (y_test D) i (i + nat (batchsize A)))) is)))"
proof (induction "is" arbitrary: st)
  case Nil
  then show ?case by (simp add: forward_model_def)
next
  case (Cons i "is")
  from Cons.prems obtain st1 where s1: "eval_step E A D i st = Inr st1"
    and rest: "for_loop (eval_step E A D) is st1 = Inr st'"
    by (auto split: sum.splits)
  have nz: "i \<noteq> 0" and tl: "\<forall>i \<in> set is. i \<noteq> 0" using Cons.prems(1) by simp_all
  note s = eval_step_refines[OF s1]
  note ih = Cons.IH[OF tl rest]
  show ?case
    using ih s nz by (simp add: forward_model_def)
qed

lemma eval_loop_refines:
  assumes b: "0 < b" and st: "starts = map (\<lambda>k. k * b) [0..<n]"
    and lp: "for_loop (eval_step E A D) starts st = Inr st'"
  shows "model st'
     = eval_model E (model st)
         (map (\<lambda>i. (py_slice (x_test D) i (i + nat (batchsize A)),
                     py_slice (y_test D) i (i + nat (batchsize A)))) starts)
   \<and> sum_loss st' = sum_loss st
       + sum_list (map (\<lambda>(l, m, k). l * real k)
           (eval_values E (model st)
              (map (\<lambda>i. (py_slice (x_test D) i (i + nat (batchsize A)),
                          py_slice (y_test D) i (i + nat (batchsize A)))) starts)))
   \<and> sum_mean_squared_error st' = sum_mean_squared_error st
       + sum_list (map (\<lambda>(l, m, k). m * real k)
           (eval_values E (model st)
              (map (\<lambda>i. (py_slice (x_test D) i (i + nat (batchsize A)),
                          py_slice (y_test D) i (i + nat (batchsize A)))) starts)))"
proof (cases n)
  case 0
  then show ?thesis using st lp by (simp add: eval_model_def eval_values_def)
next
  case (Suc n')
  let ?tl = "map (\<lambda>k. k * b) [Suc 0..<Suc n']"
  have s: "starts = 0 # ?tl"
    using st Suc by (simp add: upt_conv_Cons del: upt_Suc)
  have nz: "\<forall>i \<in> set ?tl. i \<noteq> 0" using b by auto
  from lp s obtain st1 where s1: "eval_step E A D 0 st = Inr st1"
    and rest: "for_loop (eval_step E A D) ?tl st1 = Inr st'"
    by (auto split: sum.splits)
  note f = eval_step_refines[OF s1]
  note t = eval_tail_refines[OF nz rest]
  show ?thesis
    using f t by (simp add: s eval_model_def eval_values_def del: upt_Suc)
qed

lemma zip_slices_eq_test_batches:
  assumes b: "0 < b" and r: "py_range (N_test D) b = Inr starts"
    and nt: "N_test D = length (y_test D)" and nx: "length (x_test D) = length (y_test D)"
  shows "map (\<lambda>i. (py_slice (x_test D) i (i + nat b), py_slice (y_test D) i (i + nat b))) starts
         = test_batches D (nat b)"
proof -
  have x: "map (\<lambda>i. py_slice (x_test D) i (i + nat b)) starts = chunks (nat b) (x_test D)"
    using range_slices_eq_chunks[OF b r, of "x_test D"] nt nx by simp
  have y: "map (\<lambda>i. py_slice (y_test D) i (i + nat b)) starts = chunks (nat b) (y_test D)"
    using range_slices_eq_chunks[OF b r, of "y_test D"] nt by simp
  have "map (\<lambda>i. (py_slice (x_test D) i (i + nat b), py_slice (y_test D) i (i + nat b))) starts
        = zip (map (\<lambda>i. py_slice (x_test D) i (i + nat b)) starts)
              (map (\<lambda>i. py_slice (y_test D) i (i + nat b)) starts)"
    by (induction starts) simp_all
  then show ?thesis by (simp only: x y test_batches_def)
qed

subsection \<open>The two phases and the epoch\<close>

lemma train_report_sums:
  assumes "train_report E D ep st = Inr st'"
  shows "sum_loss st' = sum_loss st \<and> sum_mean_squared_error st' = sum_mean_squared_error st"
  using assms by (auto simp: train_report_def py_div_def split: if_splits)

lemma test_report_sums:
  assumes "test_report D st = Inr st'"
  shows "sum_loss st' = sum_loss st \<and> sum_mean_squared_error st' = sum_mean_squared_error st"
  using assms by (auto simp: test_report_def py_div_def split: if_splits)

lemma train_phase_refines:
  assumes ok: "train_phase E A D ep st = Inr st1"
    and b: "0 < batchsize A"
    and len: "length (fst (permutation E (N_train D) (rng st))) = N_train D"
  shows "\<exists>evs.
         trace st1 = trace st @ evs
       \<and> train_reports evs
           = [(sum_loss st1 / real (N_train D), sum_mean_squared_error st1 / real (N_train D),
               real (N_train D) / elapsed_time E ep)]
       \<and> test_reports evs = []
       \<and> (optimizer st1, model st1)
           = train_states E (optimizer st, model st)
               (train_batches D (nat (batchsize A)) (fst (permutation E (N_train D) (rng st))))
       \<and> sum_loss st1
           = sum_list (map (\<lambda>(l, m, k). l * real k)
               (train_values E (optimizer st, model st)
                 (train_batches D (nat (batchsize A)) (fst (permutation E (N_train D) (rng st))))))
       \<and> sum_mean_squared_error st1
           = sum_list (map (\<lambda>(l, m, k). m * real k)
               (train_values E (optimizer st, model st)
                 (train_batches D (nat (batchsize A)) (fst (permutation E (N_train D) (rng st))))))
       \<and> rng st1 = snd (permutation E (N_train D) (rng st))
       \<and> N_train D \<noteq> 0"
proof -
  obtain perm r where p: "permutation E (N_train D) (rng st) = (perm, r)"
    by (cases "permutation E (N_train D) (rng st)")
  let ?st0 = "st\<lparr>rng := r, sum_mean_squared_error := 0, sum_loss := 0\<rparr>"
  from ok p obtain starts stl where
    rg: "py_range (N_train D) (batchsize A) = Inr starts"
    and lp: "for_loop (train_step E A D perm ep) starts ?st0 = Inr stl"
    and rp: "train_report E D ep stl = Inr st1"
    by (auto simp: train_phase_def split: sum.splits)
  have lenp: "length perm = N_train D" using len p by simp
  have bts: "map (\<lambda>i. batch_at D (py_slice perm i (i + nat (batchsize A)))) starts
             = train_batches D (nat (batchsize A)) perm"
  proof -
    have "map (\<lambda>i. batch_at D (py_slice perm i (i + nat (batchsize A)))) starts
          = map (batch_at D) (map (\<lambda>i. py_slice perm i (i + nat (batchsize A))) starts)"
      by (simp add: comp_def)
    then show ?thesis
      by (simp only: range_slices_eq_chunks[OF b rg lenp] train_batches_def)
  qed
  from train_loop_Inr[OF lp] obtain evs where
    t1: "trace stl = trace ?st0 @ evs"
    and n1: "train_reports evs = []" "test_reports evs = []"
    and r1: "rng stl = rng ?st0"
    by blast
  note rf = train_loop_refines[OF lp, unfolded bts]
  note rep = train_report_Inr[OF rp]
  note sm = train_report_sums[OF rp]
  let ?evs = "evs @ [Train_report (sum_loss stl / real (N_train D))
            (sum_mean_squared_error stl / real (N_train D)) (real (N_train D) / elapsed_time E ep)]"
  have "trace st1 = trace st @ ?evs" using rep t1 by simp
  moreover have "train_reports ?evs
           = [(sum_loss st1 / real (N_train D), sum_mean_squared_error st1 / real (N_train D),
               real (N_train D) / elapsed_time E ep)]"
    using n1 sm by simp
  moreover have "test_reports ?evs = []" using n1 by simp
  moreover have "(optimizer st1, model st1)
           = train_states E (optimizer st, model st) (train_batches D (nat (batchsize A)) perm)"
    using rf rep by simp
  moreover have "sum_loss st1
           = sum_list (map (\<lambda>(l, m, k). l * real k)
               (train_values E (optimizer st, model st) (train_batches D (nat (batchsize A)) perm)))"
    using rf sm by simp
  moreover have "sum_mean_squared_error st1
           = sum_list (map (\<lambda>(l, m, k). m * real k)
               (train_values E (optimizer st, model st) (train_batches D (nat (batchsize A)) perm)))"
    using rf sm by simp
  moreover have "rng st1 = r" using rep r1 by simp
  ultimately show ?thesis using rep p by (intro exI[of _ ?evs]) simp
qed

lemma eval_phase_refines:
  assumes ok: "eval_phase E A D st = Inr st'"
    and b: "0 < batchsize A"
    and nt: "N_test D = length (y_test D)"
    and nx: "length (x_test D) = length (y_test D)"
  shows "\<exists>evs.
         trace st' = trace st @ evs
       \<and> train_reports evs = []
       \<and> test_reports evs
           = [(sum_loss st' / real (N_test D), sum_mean_squared_error st' / real (N_test D))]
       \<and> model st' = eval_model E (model st) (test_batches D (nat (batchsize A)))
       \<and> optimizer st' = optimizer st
       \<and> rng st' = rng st
       \<and> sum_loss st'
           = sum_list (map (\<lambda>(l, m, k). l * real k)
               (eval_values E (model st) (test_batches D (nat (batchsize A)))))
       \<and> sum_mean_squared_error st'
           = sum_list (map (\<lambda>(l, m, k). m * real k)
               (eval_values E (model st) (test_batches D (nat (batchsize A)))))
       \<and> N_test D \<noteq> 0"
proof -
  let ?st0 = "st\<lparr>sum_mean_squared_error := 0, sum_loss := 0\<rparr>"
  from ok obtain starts stl where
    rg: "py_range (N_test D) (batchsize A) = Inr starts"
    and lp: "for_loop (eval_step E A D) starts ?st0 = Inr stl"
    and rp: "test_report D stl = Inr st'"
    by (auto simp: eval_phase_def split: sum.splits)
  have s: "starts = map (\<lambda>k. k * nat (batchsize A))
                      [0..<(N_test D + nat (batchsize A) - 1) div nat (batchsize A)]"
    using rg py_range_pos[OF b, of "N_test D"] by simp
  have bp: "0 < nat (batchsize A)" using b by simp
  note bts = zip_slices_eq_test_batches[OF b rg nt nx]
  from eval_loop_Inr[OF lp] obtain evs where
    t1: "trace stl = trace ?st0 @ evs"
    and n1: "train_reports evs = []" "test_reports evs = []"
    and r1: "rng stl = rng ?st0" "optimizer stl = optimizer ?st0"
    by blast
  note rf = eval_loop_refines[OF bp s lp, unfolded bts]
  note rep = test_report_Inr[OF rp]
  note sm = test_report_sums[OF rp]
  let ?evs = "evs @ [Test_report (sum_loss stl / real (N_test D))
            (sum_mean_squared_error stl / real (N_test D))]"
  have "trace st' = trace st @ ?evs" using rep t1 by simp
  moreover have "test_reports ?evs
           = [(sum_loss st' / real (N_test D), sum_mean_squared_error st' / real (N_test D))]"
    using n1 sm by simp
  moreover have "train_reports ?evs = []" using n1 by simp
  moreover have "model st' = eval_model E (model st) (test_batches D (nat (batchsize A)))"
    using rf rep by simp
  moreover have "sum_loss st'
           = sum_list (map (\<lambda>(l, m, k). l * real k)
               (eval_values E (model st) (test_batches D (nat (batchsize A)))))"
    using rf sm by simp
  moreover have "sum_mean_squared_error st'
           = sum_list (map (\<lambda>(l, m, k). m * real k)
               (eval_values E (model st) (test_batches D (nat (batchsize A)))))"
    using rf sm by simp
  moreover have "optimizer st' = optimizer st" "rng st' = rng st" using rep r1 by simp_all
  ultimately show ?thesis using rep by (intro exI[of _ ?evs]) simp
qed

lemma epoch_body_refines:
  assumes ok: "epoch_body E A D ep st = Inr st'"
    and b: "0 < batchsize A"
    and len: "length (fst (permutation E (N_train D) (rng st))) = N_train D"
    and nt: "N_test D = length (y_test D)"
    and nx: "length (x_test D) = length (y_test D)"
  shows "train_reports (new_events st st')
           = [(sum_list (map (\<lambda>(l, m, k). l * real k) (epoch_train_values E A D st))
                 / real (N_train D),
               sum_list (map (\<lambda>(l, m, k). m * real k) (epoch_train_values E A D st))
                 / real (N_train D),
               real (N_train D) / elapsed_time E ep)]
       \<and> test_reports (new_events st st')
           = [(sum_list (map (\<lambda>(l, m, k). l * real k) (epoch_test_values E A D st))
                 / real (N_test D),
               sum_list (map (\<lambda>(l, m, k). m * real k) (epoch_test_values E A D st))
                 / real (N_test D))]
       \<and> optimizer st' = fst (epoch_trained E A D st)
       \<and> model st' = eval_model E (snd (epoch_trained E A D st)) (test_batches D (nat (batchsize A)))
       \<and> rng st' = snd (permutation E (N_train D) (rng st))"
proof -
  let ?st0 = "st\<lparr>trace := trace st @ [Epoch_start ep]\<rparr>"
  from epoch_body_Inr[OF ok] obtain st1 where
    tp: "train_phase E A D ep ?st0 = Inr st1" and ev: "eval_phase E A D st1 = Inr st'"
    by blast
  have len0: "length (fst (permutation E (N_train D) (rng ?st0))) = N_train D"
    using len by simp
  from train_phase_refines[OF tp b len0] obtain evs where
    t1: "trace st1 = trace ?st0 @ evs"
    and tr1: "train_reports evs
           = [(sum_loss st1 / real (N_train D), sum_mean_squared_error st1 / real (N_train D),
               real (N_train D) / elapsed_time E ep)]"
    and te1: "test_reports evs = []"
    and s1: "(optimizer st1, model st1) = epoch_trained E A D st"
    and l1: "sum_loss st1
           = sum_list (map (\<lambda>(l, m, k). l * real k) (epoch_train_values E A D st))"
    and m1: "sum_mean_squared_error st1
           = sum_list (map (\<lambda>(l, m, k). m * real k) (epoch_train_values E A D st))"
    and r1: "rng st1 = snd (permutation E (N_train D) (rng st))"
    by (auto simp: epoch_trained_def epoch_train_values_def epoch_train_batches_def)
  have o1: "optimizer st1 = fst (epoch_trained E A D st)"
    and mo1: "model st1 = snd (epoch_trained E A D st)"
    using s1 by (metis fst_conv, metis snd_conv)
  from eval_phase_refines[OF ev b nt nx] obtain evs' where
    t2: "trace st' = trace st1 @ evs'"
    and tr2: "train_reports evs' = []"
    and te2: "test_reports evs'
           = [(sum_loss st' / real (N_test D), sum_mean_squared_error st' / real (N_test D))]"
    and mo2: "model st' = eval_model E (model st1) (test_batches D (nat (batchsize A)))"
    and o2: "optimizer st' = optimizer st1"
    and r2: "rng st' = rng st1"
    and l2: "sum_loss st'
           = sum_list (map (\<lambda>(l, m, k). l * real k)
               (eval_values E (model st1) (test_batches D (nat (batchsize A)))))"
    and m2: "sum_mean_squared_error st'
           = sum_list (map (\<lambda>(l, m, k). m * real k)
               (eval_values E (model st1) (test_batches D (nat (batchsize A)))))"
    by blast
  have ne: "new_events st st' = Epoch_start ep # evs @ evs'"
    using t1 t2 by (simp add: new_events_def)
  have a: "train_reports (new_events st st')
           = [(sum_loss st1 / real (N_train D), sum_mean_squared_error st1 / real (N_train D),
               real (N_train D) / elapsed_time E ep)]"
    using tr1 tr2 by (simp add: ne)
  have c: "test_reports (new_events st st')
           = [(sum_loss st' / real (N_test D), sum_mean_squared_error st' / real (N_test D))]"
    using te1 te2 by (simp add: ne)
  show ?thesis
    using a c o1 o2 mo1 mo2 r1 r2 l1 m1 l2 m2
    by (simp add: epoch_test_values_def)
qed

lemma train_values_sizes:
  "map (\<lambda>(l, m, k). k) (train_values E s bts) = map (\<lambda>bt. length (snd bt)) bts"
  by (induction bts arbitrary: s) simp_all

lemma forward_values_sizes:
  "map (\<lambda>(l, m, k). k) (forward_values E m bts) = map (\<lambda>bt. length (snd bt)) bts"
  by (induction bts arbitrary: m) simp_all

lemma eval_values_sizes:
  "map (\<lambda>(l, m, k). k) (eval_values E m bts) = map (\<lambda>bt. length (snd bt)) bts"
  by (cases bts) (simp_all add: eval_values_def forward_values_sizes)

lemma train_batches_sizes:
  "map (\<lambda>bt. length (snd bt)) (train_batches D b perm) = map length (chunks b perm)"
  "map (\<lambda>bt. length (fst bt)) (train_batches D b perm) = map length (chunks b perm)"
  by (simp_all add: train_batches_def batch_at_def comp_def)

lemma length_chunks: "0 < b \<Longrightarrow> length (chunks b xs) = (length xs + b - 1) div b"
  using slices_eq_chunks[of b xs] by (metis diff_zero length_map length_upt)

lemma test_batches_fst:
  "0 < b \<Longrightarrow> length (x_test D) = length (y_test D) \<Longrightarrow>
   map fst (test_batches D b) = chunks b (x_test D)"
  by (simp add: test_batches_def length_chunks)

lemma test_batches_snd:
  "0 < b \<Longrightarrow> length (x_test D) = length (y_test D) \<Longrightarrow>
   map snd (test_batches D b) = chunks b (y_test D)"
  by (simp add: test_batches_def length_chunks)

lemma sum_sizes_chunks: "0 < b \<Longrightarrow> sum_list (map length (chunks b xs)) = length xs"
  using concat_chunks[of b xs] by (metis length_concat)

lemma weighted_mean_values:
  "weighted_mean (map (\<lambda>(l, m, k). (f l m, k)) vs)
   = sum_list (map (\<lambda>(l, m, k). f l m * real k) vs)
       / real (sum_list (map (\<lambda>(l, m, k). k) vs))"
  by (simp add: weighted_mean_def comp_def case_prod_unfold)

lemma epoch_train_sizes:
  assumes b: "0 < batchsize A"
    and len: "length (fst (permutation E (N_train D) (rng st))) = N_train D"
  shows "sum_list (map (\<lambda>(l, m, k). k) (epoch_train_values E A D st)) = N_train D"
proof -
  have bp: "0 < nat (batchsize A)" using b by simp
  show ?thesis
    using sum_sizes_chunks[OF bp, of "fst (permutation E (N_train D) (rng st))"] len
    by (simp add: epoch_train_values_def epoch_train_batches_def train_values_sizes
        train_batches_sizes)
qed

lemma epoch_test_sizes:
  assumes b: "0 < batchsize A"
    and nt: "N_test D = length (y_test D)"
    and nx: "length (x_test D) = length (y_test D)"
  shows "sum_list (map (\<lambda>(l, m, k). k) (epoch_test_values E A D st)) = N_test D"
proof -
  have bp: "0 < nat (batchsize A)" using b by simp
  have "map (\<lambda>bt. length (snd bt)) (test_batches D (nat (batchsize A)))
        = map length (map snd (test_batches D (nat (batchsize A))))"
    by (simp add: comp_def)
  then show ?thesis
    using sum_sizes_chunks[OF bp, of "y_test D"] nt
    by (simp add: epoch_test_values_def eval_values_sizes test_batches_snd[OF bp nx])
qed


lemma zip_gathered:
  "zip (map (nth xs) idxs) (map (nth ys) idxs) = map (\<lambda>k. (xs ! k, ys ! k)) idxs"
  by (induction idxs) simp_all

lemma zip_as_map_nth:
  "length xs = n \<Longrightarrow> length ys = n \<Longrightarrow> map (\<lambda>k. (xs ! k, ys ! k)) [0..<n] = zip xs ys"
  by (rule nth_equalityI) simp_all


section \<open>The recording instance\<close>

text \<open>
  One epoch over 7 training and 4 test samples in batches of 3, with the recording
  collaborators: it completes; the batches and the per-batch values are computed here.
\<close>

lemma rec_epoch_ok: "\<not> isl (epoch_body rec_env toy_args toy_data 1 rec_state)"
  by code_simp

lemma rec_train_values:
  "epoch_train_values rec_env toy_args toy_data rec_state
     = [(3, 3 / 2, 3), (6, 3, 3), (7, 7 / 2, 1)]"
  by code_simp

lemma rec_test_values:
  "epoch_test_values rec_env toy_args toy_data rec_state
     = [(3, 7 / 2, 3), (1, 7 / 2, 1)]"
  by code_simp


lemma rec_batches:
  "map (batch_at toy_data) (chunks 3 (rev [0..<7]))
     = [([[0], [1], [1 / 2]], [6, 5, 4]), ([[0], [1], [1 / 2]], [3, 2, 1]), ([[0]], [0])]"
  by code_simp

lemma rec_test_batches:
  "zip (chunks 3 (x_test toy_data)) (chunks 3 (y_test toy_data))
     = [([[1], [0], [1 / 2]], [7, 8, 9]), ([[1]], [0])]"
  by code_simp


lemma rec_means:
  "weighted_mean (map (\<lambda>(l, m, k). (l, k)) (epoch_train_values rec_env toy_args toy_data rec_state))
     = 34 / 7"
  "weighted_mean (map (\<lambda>(l, m, k). (m, k)) (epoch_train_values rec_env toy_args toy_data rec_state))
     = 17 / 7"
  "weighted_mean (map (\<lambda>(l, m, k). (l, k)) (epoch_test_values rec_env toy_args toy_data rec_state))
     = 5 / 2"
  "weighted_mean (map (\<lambda>(l, m, k). (m, k)) (epoch_test_values rec_env toy_args toy_data rec_state))
     = 7 / 2"
  by (simp_all add: rec_train_values rec_test_values weighted_mean_def)

section \<open>The claims\<close>

text \<open>
  C1. In every epoch that completes, the reported mean training loss and mean
  reconstruction error are the batch-size-weighted averages of the per-batch values
  \<^verbatim>\<open>model.loss.data\<close> and \<^verbatim>\<open>model.mean_squared_error.data\<close>, read from the model right after
  the optimizer update on each training batch; the test report is the weighted average of
  the loss each \<^verbatim>\<open>model(x, t)\<close> call returned and of the reconstruction error read after it,
  over the test batches, starting from the trained model. The batch sizes add up to \<open>N\<close>
  and to \<open>N_test\<close>, so the script's division by \<open>N\<close> (by \<open>N_test\<close>) is the division by
  the total weight: the reports are means over samples, not sums. The batch size is
  positive, \<^verbatim>\<open>np.random.permutation(N)\<close> returns \<open>N\<close> indices, and the test rows and
  labels are \<open>N_test\<close> each.
\<close>

theorem epoch_reports_are_weighted_means:
  assumes ok: "epoch_body E A D ep st = Inr st'"
    and b: "0 < batchsize A"
    and len: "length (fst (permutation E (N_train D) (rng st))) = N_train D"
    and nt: "N_test D = length (y_test D)"
    and nx: "length (x_test D) = length (y_test D)"
  shows "train_reports (new_events st st')
           = [(weighted_mean (map (\<lambda>(l, m, k). (l, k)) (epoch_train_values E A D st)),
               weighted_mean (map (\<lambda>(l, m, k). (m, k)) (epoch_train_values E A D st)),
               real (N_train D) / elapsed_time E ep)]
       \<and> test_reports (new_events st st')
           = [(weighted_mean (map (\<lambda>(l, m, k). (l, k)) (epoch_test_values E A D st)),
               weighted_mean (map (\<lambda>(l, m, k). (m, k)) (epoch_test_values E A D st)))]
       \<and> sum_list (map (\<lambda>(l, m, k). k) (epoch_train_values E A D st)) = N_train D
       \<and> sum_list (map (\<lambda>(l, m, k). k) (epoch_test_values E A D st)) = N_test D"
proof -
  note r = epoch_body_refines[OF ok b len nt nx]
  note s1 = epoch_train_sizes[OF b len]
  note s2 = epoch_test_sizes[OF b nt nx, where E = E and st = st]
  have w1: "weighted_mean (map (\<lambda>(l, m, k). (l, k)) (epoch_train_values E A D st))
            = sum_list (map (\<lambda>(l, m, k). l * real k) (epoch_train_values E A D st))
                / real (N_train D)"
    using weighted_mean_values[of "\<lambda>l m. l" "epoch_train_values E A D st"] s1 by simp
  have w2: "weighted_mean (map (\<lambda>(l, m, k). (m, k)) (epoch_train_values E A D st))
            = sum_list (map (\<lambda>(l, m, k). m * real k) (epoch_train_values E A D st))
                / real (N_train D)"
    using weighted_mean_values[of "\<lambda>l m. m" "epoch_train_values E A D st"] s1 by simp
  have w3: "weighted_mean (map (\<lambda>(l, m, k). (l, k)) (epoch_test_values E A D st))
            = sum_list (map (\<lambda>(l, m, k). l * real k) (epoch_test_values E A D st))
                / real (N_test D)"
    using weighted_mean_values[of "\<lambda>l m. l" "epoch_test_values E A D st"] s2 by simp
  have w4: "weighted_mean (map (\<lambda>(l, m, k). (m, k)) (epoch_test_values E A D st))
            = sum_list (map (\<lambda>(l, m, k). m * real k) (epoch_test_values E A D st))
                / real (N_test D)"
    using weighted_mean_values[of "\<lambda>l m. m" "epoch_test_values E A D st"] s2 by simp
  show ?thesis using r s1 s2 by (simp only: w1 w2 w3 w4 simp_thms)
qed

theorem epoch_reports_are_weighted_means_witness:
  "\<exists>st'. epoch_body rec_env toy_args toy_data 1 rec_state = Inr st'
     \<and> 0 < batchsize toy_args
     \<and> length (fst (permutation rec_env (N_train toy_data) (rng rec_state))) = N_train toy_data
     \<and> N_test toy_data = length (y_test toy_data)
     \<and> length (x_test toy_data) = length (y_test toy_data)
     \<and> train_reports (new_events rec_state st') = [(34 / 7, 17 / 7, 7 / 2)]
     \<and> test_reports (new_events rec_state st') = [(5 / 2, 7 / 2)]"
proof -
  obtain st' where ok: "epoch_body rec_env toy_args toy_data 1 rec_state = Inr st'"
    using rec_epoch_ok by (cases "epoch_body rec_env toy_args toy_data 1 rec_state") auto
  have b: "0 < batchsize toy_args" by (simp add: toy_args_def)
  have p: "length (fst (permutation rec_env (N_train toy_data) (rng rec_state))) = N_train toy_data"
    by (simp add: rec_env_def)
  have nt: "N_test toy_data = length (y_test toy_data)" by (simp add: toy_data_def)
  have nx: "length (x_test toy_data) = length (y_test toy_data)" by (simp add: toy_data_def)
  note c = epoch_reports_are_weighted_means[OF ok b p nt nx]
  have t: "real (N_train toy_data) / elapsed_time rec_env 1 = 7 / 2"
    by (simp add: toy_data_def rec_env_def)
  have c': "train_reports (new_events rec_state st') = [(34 / 7, 17 / 7, 7 / 2)]
     \<and> test_reports (new_events rec_state st') = [(5 / 2, 7 / 2)]"
    using c by (simp only: rec_means t simp_thms)
  show ?thesis
    by (rule exI[of _ st']) (simp only: ok b p nt nx c' simp_thms)
qed

text \<open>
  C2. With a positive batch size \<open>b\<close>, an epoch that completes has called the optimizer
  on exactly the batches \<open>x_train[idxs], y_train[idxs]\<close> for the consecutive chunks
  \<open>idxs\<close> of the permutation drawn for the epoch, in order, and then the model on exactly
  the consecutive chunks of \<open>x_test\<close> and \<open>y_test\<close>, in order: optimizer and model at the
  end of the epoch are what these calls, and no others, leave. The chunks of a list of
  length \<open>n\<close> are \<open>n div b\<close> batches of size \<open>b\<close>, followed, when \<open>b\<close> does not
  divide \<open>n\<close>, by one batch of size \<open>n mod b\<close>; concatenated they are the list, so
  nothing is dropped and nothing is padded. (With the recording collaborators and 7
  samples in batches of 3 the optimizer has seen batches of 3, 3 and 1 samples.)
\<close>

theorem batches_partition_dataset:
  assumes ok: "epoch_body E A D ep st = Inr st'"
    and b: "0 < batchsize A"
    and len: "length (fst (permutation E (N_train D) (rng st))) = N_train D"
    and nt: "N_test D = length (y_test D)"
    and nx: "length (x_test D) = length (y_test D)"
  shows "optimizer st'
           = fst (train_states E (optimizer st, model st)
                   (map (batch_at D)
                      (chunks (nat (batchsize A)) (fst (permutation E (N_train D) (rng st))))))
       \<and> model st'
           = eval_model E
               (snd (train_states E (optimizer st, model st)
                   (map (batch_at D)
                      (chunks (nat (batchsize A)) (fst (permutation E (N_train D) (rng st)))))))
               (zip (chunks (nat (batchsize A)) (x_test D)) (chunks (nat (batchsize A)) (y_test D)))
       \<and> concat (chunks (nat (batchsize A)) (fst (permutation E (N_train D) (rng st))))
           = fst (permutation E (N_train D) (rng st))
       \<and> map length (chunks (nat (batchsize A)) (fst (permutation E (N_train D) (rng st))))
           = replicate (N_train D div nat (batchsize A)) (nat (batchsize A))
             @ (if nat (batchsize A) dvd N_train D then [] else [N_train D mod nat (batchsize A)])
       \<and> concat (chunks (nat (batchsize A)) (x_test D)) = x_test D
       \<and> concat (chunks (nat (batchsize A)) (y_test D)) = y_test D
       \<and> map length (chunks (nat (batchsize A)) (x_test D))
           = replicate (N_test D div nat (batchsize A)) (nat (batchsize A))
             @ (if nat (batchsize A) dvd N_test D then [] else [N_test D mod nat (batchsize A)])
       \<and> map length (chunks (nat (batchsize A)) (y_test D))
           = replicate (N_test D div nat (batchsize A)) (nat (batchsize A))
             @ (if nat (batchsize A) dvd N_test D then [] else [N_test D mod nat (batchsize A)])"
proof -
  have bp: "0 < nat (batchsize A)" using b by simp
  note r = epoch_body_refines[OF ok b len nt nx]
  have o: "optimizer st'
           = fst (train_states E (optimizer st, model st)
                   (map (batch_at D)
                      (chunks (nat (batchsize A)) (fst (permutation E (N_train D) (rng st))))))"
    using r by (simp add: epoch_trained_def epoch_train_batches_def train_batches_def)
  have m: "model st'
           = eval_model E
               (snd (train_states E (optimizer st, model st)
                   (map (batch_at D)
                      (chunks (nat (batchsize A)) (fst (permutation E (N_train D) (rng st)))))))
               (zip (chunks (nat (batchsize A)) (x_test D)) (chunks (nat (batchsize A)) (y_test D)))"
    using r by (simp add: epoch_trained_def epoch_train_batches_def train_batches_def
        test_batches_def)
  have l1: "map length (chunks (nat (batchsize A)) (fst (permutation E (N_train D) (rng st))))
           = replicate (N_train D div nat (batchsize A)) (nat (batchsize A))
             @ (if nat (batchsize A) dvd N_train D then [] else [N_train D mod nat (batchsize A)])"
    using lengths_chunks[OF bp, of "fst (permutation E (N_train D) (rng st))"] len by simp
  have l2: "map length (chunks (nat (batchsize A)) (x_test D))
           = replicate (N_test D div nat (batchsize A)) (nat (batchsize A))
             @ (if nat (batchsize A) dvd N_test D then [] else [N_test D mod nat (batchsize A)])"
    using lengths_chunks[OF bp, of "x_test D"] nt nx by simp
  have l3: "map length (chunks (nat (batchsize A)) (y_test D))
           = replicate (N_test D div nat (batchsize A)) (nat (batchsize A))
             @ (if nat (batchsize A) dvd N_test D then [] else [N_test D mod nat (batchsize A)])"
    using lengths_chunks[OF bp, of "y_test D"] nt by simp
  show ?thesis
    using o m l1 l2 l3 by (simp only: concat_chunks[OF bp] simp_thms)
qed

theorem batches_partition_dataset_witness:
  "\<exists>st'. epoch_body rec_env toy_args toy_data 1 rec_state = Inr st'
     \<and> 0 < batchsize toy_args
     \<and> length (fst (permutation rec_env (N_train toy_data) (rng rec_state))) = N_train toy_data
     \<and> N_test toy_data = length (y_test toy_data)
     \<and> length (x_test toy_data) = length (y_test toy_data)
     \<and> optimizer st'
          = [([[0], [1], [1 / 2]], [6, 5, 4]), ([[0], [1], [1 / 2]], [3, 2, 1]), ([[0]], [0])]
     \<and> snd (model st') = [([[1], [0], [1 / 2]], [7, 8, 9]), ([[1]], [0])]"
proof -
  obtain st' where ok: "epoch_body rec_env toy_args toy_data 1 rec_state = Inr st'"
    using rec_epoch_ok by (cases "epoch_body rec_env toy_args toy_data 1 rec_state") auto
  have b: "0 < batchsize toy_args" by (simp add: toy_args_def)
  have p: "length (fst (permutation rec_env (N_train toy_data) (rng rec_state))) = N_train toy_data"
    by (simp add: rec_env_def)
  have nt: "N_test toy_data = length (y_test toy_data)" by (simp add: toy_data_def)
  have nx: "length (x_test toy_data) = length (y_test toy_data)" by (simp add: toy_data_def)
  note c = batches_partition_dataset[OF ok b p nt nx]
  have pm: "fst (permutation rec_env (N_train toy_data) (rng rec_state)) = rev [0..<7]"
    and b3: "nat (batchsize toy_args) = 3"
    by (simp_all add: rec_env_def toy_data_def toy_args_def)
  have e1: "fst (train_states rec_env (optimizer rec_state, model rec_state)
              [([[0], [1], [1 / 2]], [6, 5, 4]), ([[0], [1], [1 / 2]], [3, 2, 1]), ([[0]], [0])])
           = [([[0], [1], [1 / 2]], [6, 5, 4]), ([[0], [1], [1 / 2]], [3, 2, 1]), ([[0]], [0])]"
    by code_simp
  have e2: "snd (eval_model rec_env
              (snd (train_states rec_env (optimizer rec_state, model rec_state)
                 [([[0], [1], [1 / 2]], [6, 5, 4]), ([[0], [1], [1 / 2]], [3, 2, 1]), ([[0]], [0])]))
              [([[1], [0], [1 / 2]], [7, 8, 9]), ([[1]], [0])])
           = [([[1], [0], [1 / 2]], [7, 8, 9]), ([[1]], [0])]"
    by code_simp
  have o: "optimizer st'
          = [([[0], [1], [1 / 2]], [6, 5, 4]), ([[0], [1], [1 / 2]], [3, 2, 1]), ([[0]], [0])]"
    using c e1 by (simp only: pm b3 rec_batches)
  have m: "snd (model st') = [([[1], [0], [1 / 2]], [7, 8, 9]), ([[1]], [0])]"
    using c e2 by (simp only: pm b3 rec_batches rec_test_batches)
  show ?thesis
    by (rule exI[of _ st']) (simp only: ok b p nt nx o m simp_thms)
qed

text \<open>
  C4. Every epoch draws one permutation from the generator, in the state the generator has
  at the start of the epoch, and leaves the generator advanced by that draw. The optimizer
  is called on exactly the batches the consecutive chunks of that permutation select, in
  order. When the draw is a permutation of \<open>0..<N\<close>, the batch size is positive and the
  training set has \<open>N\<close> rows and labels, every index occurs in exactly one chunk, and
  the samples handed to the optimizer over the epoch are, counted with multiplicity, the
  training samples: each is processed in exactly one minibatch.
\<close>

theorem epoch_visits_every_sample_once:
  assumes ok: "epoch_body E A D ep st = Inr st'"
    and b: "0 < batchsize A"
    and perm: "mset (fst (permutation E (N_train D) (rng st))) = mset [0..<N_train D]"
    and lx: "length (x_train D) = N_train D"
    and ly: "length (y_train D) = N_train D"
    and nt: "N_test D = length (y_test D)"
    and nx: "length (x_test D) = length (y_test D)"
  shows "rng st' = snd (permutation E (N_train D) (rng st))
       \<and> optimizer st'
           = fst (train_states E (optimizer st, model st) (epoch_train_batches E A D st))
       \<and> epoch_train_batches E A D st
           = map (batch_at D)
               (chunks (nat (batchsize A)) (fst (permutation E (N_train D) (rng st))))
       \<and> mset (concat (chunks (nat (batchsize A)) (fst (permutation E (N_train D) (rng st)))))
           = mset [0..<N_train D]
       \<and> mset (concat (map (\<lambda>bt. zip (fst bt) (snd bt)) (epoch_train_batches E A D st)))
           = mset (zip (x_train D) (y_train D))"
proof -
  let ?perm = "fst (permutation E (N_train D) (rng st))"
  have bp: "0 < nat (batchsize A)" using b by simp
  have len: "length ?perm = N_train D"
    using perm by (metis length_upt minus_nat.diff_0 size_mset)
  note r = epoch_body_refines[OF ok b len nt nx]
  have o: "optimizer st'
           = fst (train_states E (optimizer st, model st) (epoch_train_batches E A D st))"
    using r by (simp add: epoch_trained_def)
  have e: "epoch_train_batches E A D st = map (batch_at D) (chunks (nat (batchsize A)) ?perm)"
    by (simp add: epoch_train_batches_def train_batches_def)
  have c: "concat (chunks (nat (batchsize A)) ?perm) = ?perm"
    by (rule concat_chunks[OF bp])
  have "concat (map (\<lambda>bt. zip (fst bt) (snd bt)) (epoch_train_batches E A D st))
        = concat (map (map (\<lambda>k. (x_train D ! k, y_train D ! k))) (chunks (nat (batchsize A)) ?perm))"
    by (simp add: e batch_at_def comp_def zip_gathered)
  also have "\<dots> = map (\<lambda>k. (x_train D ! k, y_train D ! k)) ?perm"
    using c by (metis map_concat)
  finally have "mset (concat (map (\<lambda>bt. zip (fst bt) (snd bt)) (epoch_train_batches E A D st)))
        = image_mset (\<lambda>k. (x_train D ! k, y_train D ! k)) (mset ?perm)"
    by simp
  also have "\<dots> = mset (map (\<lambda>k. (x_train D ! k, y_train D ! k)) [0..<N_train D])"
    by (simp only: perm mset_map)
  also have "\<dots> = mset (zip (x_train D) (y_train D))"
    by (simp only: zip_as_map_nth[OF lx ly])
  finally have s: "mset (concat (map (\<lambda>bt. zip (fst bt) (snd bt)) (epoch_train_batches E A D st)))
        = mset (zip (x_train D) (y_train D))" .
  show ?thesis using r o e s perm by (simp only: c simp_thms)
qed

theorem epoch_visits_every_sample_once_witness:
  "\<exists>st'. epoch_body rec_env toy_args toy_data 1 rec_state = Inr st'
     \<and> 0 < batchsize toy_args
     \<and> mset (fst (permutation rec_env (N_train toy_data) (rng rec_state)))
          = mset [0..<N_train toy_data]
     \<and> length (x_train toy_data) = N_train toy_data
     \<and> length (y_train toy_data) = N_train toy_data
     \<and> N_test toy_data = length (y_test toy_data)
     \<and> length (x_test toy_data) = length (y_test toy_data)
     \<and> rng st' = snd (permutation rec_env (N_train toy_data) (rng rec_state))
     \<and> optimizer st'
          = fst (train_states rec_env (optimizer rec_state, model rec_state)
                  (epoch_train_batches rec_env toy_args toy_data rec_state))
     \<and> mset (concat (map (\<lambda>bt. zip (fst bt) (snd bt))
                (epoch_train_batches rec_env toy_args toy_data rec_state)))
          = mset (zip (x_train toy_data) (y_train toy_data))"
proof -
  obtain st' where ok: "epoch_body rec_env toy_args toy_data 1 rec_state = Inr st'"
    using rec_epoch_ok by (cases "epoch_body rec_env toy_args toy_data 1 rec_state") auto
  have b: "0 < batchsize toy_args" by (simp add: toy_args_def)
  have p: "mset (fst (permutation rec_env (N_train toy_data) (rng rec_state)))
          = mset [0..<N_train toy_data]"
    by (simp add: rec_env_def)
  have lx: "length (x_train toy_data) = N_train toy_data"
    and ly: "length (y_train toy_data) = N_train toy_data"
    and nt: "N_test toy_data = length (y_test toy_data)"
    and nx: "length (x_test toy_data) = length (y_test toy_data)"
    by (simp_all add: toy_data_def)
  note c = epoch_visits_every_sample_once[OF ok b p lx ly nt nx]
  note c1 = c[THEN conjunct1]
  note c2 = c[THEN conjunct2, THEN conjunct1]
  note c3 = c[THEN conjunct2, THEN conjunct2, THEN conjunct2, THEN conjunct2]
  show ?thesis
    by (rule exI[of _ st']) (simp only: ok b p lx ly nt nx c1 c2 c3 simp_thms)
qed









text \<open>
  C10. When the loaded dataset has exactly 60000 labels, \<open>N_test\<close> is 0. With
  \<open>N_test = 0\<close> (and a batch size that \<^verbatim>\<open>range\<close> accepts) the evaluation loop runs
  zero times and the test report divides the zero accumulators by zero: the phase raises
  \<^verbatim>\<open>ZeroDivisionError\<close> in the state it started from with the accumulators reset.
  With \<open>N_test > 0\<close> the phase returns.
\<close>

theorem empty_test_split_divides_by_zero:
  assumes b: "batchsize A \<noteq> 0"
  shows "(length (raw_target raw) = 60000 \<longrightarrow> N_test (prepare_dataset raw) = 0)
       \<and> (N_test D = 0 \<longrightarrow>
            eval_phase E A D st
              = Inl (ZeroDivisionError, st\<lparr>sum_mean_squared_error := 0, sum_loss := 0\<rparr>))
       \<and> (0 < N_test D \<longrightarrow> \<not> isl (eval_phase E A D st))"
proof (intro conjI impI)
  assume "length (raw_target raw) = 60000"
  then show "N_test (prepare_dataset raw) = 0" by (simp add: prepare_dataset_def)
next
  assume z: "N_test D = 0"
  show "eval_phase E A D st
          = Inl (ZeroDivisionError, st\<lparr>sum_mean_squared_error := 0, sum_loss := 0\<rparr>)"
    using py_range_empty[OF b] by (simp add: eval_phase_def z test_report_def py_div_def)
next
  assume p: "0 < N_test D"
  let ?st0 = "st\<lparr>sum_mean_squared_error := 0, sum_loss := 0\<rparr>"
  from py_range_ok[OF b] obtain starts where rg: "py_range (N_test D) (batchsize A) = Inr starts"
    by blast
  obtain st1 where lp: "for_loop (eval_step E A D) starts ?st0 = Inr st1"
    using eval_loop_total by blast
  have "eval_phase E A D st = test_report D st1"
    using rg lp by (simp add: eval_phase_def)
  then show "\<not> isl (eval_phase E A D st)"
    using p by (simp add: test_report_def py_div_def)
qed

theorem empty_test_split_divides_by_zero_witness:
  "batchsize toy_args \<noteq> 0
   \<and> length (raw_target exact_60000) = 60000
   \<and> N_test (prepare_dataset exact_60000) = 0
   \<and> eval_phase toy_env toy_args (prepare_dataset exact_60000) toy_state
        = Inl (ZeroDivisionError, toy_state\<lparr>sum_mean_squared_error := 0, sum_loss := 0\<rparr>)
   \<and> 0 < N_test toy_data
   \<and> \<not> isl (eval_phase toy_env toy_args toy_data toy_state)"
proof -
  have b: "batchsize toy_args \<noteq> 0" by (simp add: toy_args_def)
  have l: "length (raw_target exact_60000) = 60000" by (simp add: exact_60000_def)
  have p: "0 < N_test toy_data" by (simp add: toy_data_def)
  note c1 = empty_test_split_divides_by_zero[OF b, of exact_60000 "prepare_dataset exact_60000" toy_env toy_state]
  note c2 = empty_test_split_divides_by_zero[OF b, of exact_60000 toy_data toy_env toy_state]
  show ?thesis using b l p c1 c2 by simp
qed

text \<open>
  C8. Dataset preparation divides every raw value by 255, so with raw values in \<open>[0, 255]\<close>
  every feature of the training and of the test set lies in \<open>[0, 1]\<close>; the training set
  is the first 60000 rows of the scaled data and of the labels, the test set is all the
  remaining rows, in order, and \<open>N_test\<close> is the number of remaining labels.
\<close>

theorem prepare_dataset_normalizes_and_splits:
  assumes bytes: "\<forall>row \<in> set (raw_data raw). \<forall>v \<in> set row. 0 \<le> v \<and> v \<le> 255"
  shows "(\<forall>row \<in> set (x_train (prepare_dataset raw) @ x_test (prepare_dataset raw)).
            \<forall>v \<in> set row. 0 \<le> v \<and> v \<le> 1)
       \<and> x_train (prepare_dataset raw) @ x_test (prepare_dataset raw)
           = map (map (\<lambda>v. real_of_int v / 255)) (raw_data raw)
       \<and> length (x_train (prepare_dataset raw)) = min 60000 (length (raw_data raw))
       \<and> y_train (prepare_dataset raw) @ y_test (prepare_dataset raw)
           = map astype_int32 (raw_target raw)
       \<and> length (y_train (prepare_dataset raw)) = min 60000 (length (raw_target raw))
       \<and> N_train (prepare_dataset raw) = 60000
       \<and> N_test (prepare_dataset raw) = length (raw_target raw) - 60000
       \<and> N_test (prepare_dataset raw) = length (y_test (prepare_dataset raw))"
proof -
  have rng: "\<forall>row \<in> set (div_255 (raw_data raw)). \<forall>v \<in> set row. 0 \<le> v \<and> v \<le> 1"
    using bytes by (auto simp: div_255_def)
  have "(\<forall>row \<in> set (x_train (prepare_dataset raw) @ x_test (prepare_dataset raw)).
            \<forall>v \<in> set row. 0 \<le> v \<and> v \<le> 1)"
    using rng by (simp add: prepare_dataset_def)
  then show ?thesis
    by (simp add: prepare_dataset_def div_255_def min.commute)
qed

theorem prepare_dataset_normalizes_and_splits_witness:
  "list_all (list_all (\<lambda>v. 0 \<le> v \<and> v \<le> 255)) (raw_data tiny_raw)
   \<and> list_all (list_all (\<lambda>v. 0 \<le> v \<and> v \<le> 1))
         (x_train (prepare_dataset tiny_raw) @ x_test (prepare_dataset tiny_raw))
   \<and> x_train (prepare_dataset tiny_raw) @ x_test (prepare_dataset tiny_raw)
       = map (map (\<lambda>v. real_of_int v / 255)) (raw_data tiny_raw)
   \<and> N_test (prepare_dataset tiny_raw) = length (raw_target tiny_raw) - 60000"
proof -
  have h: "\<forall>row \<in> set (raw_data tiny_raw). \<forall>v \<in> set row. 0 \<le> v \<and> v \<le> 255"
    by (simp add: tiny_raw_def)
  note c = prepare_dataset_normalizes_and_splits[OF h]
  have a: "list_all (list_all (\<lambda>v. 0 \<le> v \<and> v \<le> 255)) (raw_data tiny_raw)"
    unfolding list_all_iff using h by blast
  have b: "list_all (list_all (\<lambda>v. 0 \<le> v \<and> v \<le> 1))
         (x_train (prepare_dataset tiny_raw) @ x_test (prepare_dataset tiny_raw))"
    unfolding list_all_iff using c by blast
  show ?thesis using a b c by blast
qed

text \<open>
  C7. Let model construction and device placement succeed. If a model file is configured
  and loading it fails, or an optimizer snapshot is configured and loading it fails (after
  the model file, if any, was loaded), the run raises the loader's error at once: the trace
  at that point holds at most the model load, so no training step, no evaluation and no
  save has happened, and the freshly initialised model is not used in its place. If
  neither path is configured, set-up returns the freshly constructed model and optimizer
  without calling a loader.
\<close>

theorem checkpoint_load_failure_aborts:
  assumes c: "construct E (net A) seed = (m0, r)"
    and dev: "(if 0 \<le> gpu A then to_device E (gpu A) m0 else Some m0) = Some m"
  shows "(initmodel A \<noteq> [] \<and> load_npz_model E (initmodel A) m = None \<longrightarrow>
            run E A D seed = Inl (IOError, fresh_state E m r))
       \<and> (initmodel A = [] \<and> resume A \<noteq> []
            \<and> load_npz_optimizer E (resume A) (setup_optimizer E m) = None \<longrightarrow>
            run E A D seed = Inl (IOError, fresh_state E m r))
       \<and> (initmodel A \<noteq> [] \<and> load_npz_model E (initmodel A) m = Some m' \<and> resume A \<noteq> []
            \<and> load_npz_optimizer E (resume A) (setup_optimizer E m) = None \<longrightarrow>
            run E A D seed
              = Inl (IOError, (fresh_state E m r)\<lparr>model := m', trace := [Load_model (initmodel A)]\<rparr>))
       \<and> (initmodel A = [] \<and> resume A = [] \<longrightarrow>
            build E A seed = Inr (fresh_state E m r))"
  by (simp add: run_def build_unfold[OF c dev] init_resume_def fresh_state_def)

theorem checkpoint_load_failure_aborts_witness:
  "construct toy_env (net toy_args) 0 = ((0, 0), 1)
   \<and> (if 0 \<le> gpu toy_args then to_device toy_env (gpu toy_args) (0, 0) else Some (0, 0)) = Some (0, 0)
   \<and> run toy_env (toy_args\<lparr>initmodel := ''missing.model''\<rparr>) toy_data 0
        = Inl (IOError, fresh_state toy_env (0, 0) 1)
   \<and> run toy_env (toy_args\<lparr>resume := ''missing.state''\<rparr>) toy_data 0
        = Inl (IOError, fresh_state toy_env (0, 0) 1)
   \<and> run toy_env (toy_args\<lparr>initmodel := ''ok.model'', resume := ''missing.state''\<rparr>) toy_data 0
        = Inl (IOError, (fresh_state toy_env (0, 0) 1)\<lparr>model := (7, 0), trace := [Load_model ''ok.model'']\<rparr>)
   \<and> build toy_env toy_args 0 = Inr (fresh_state toy_env (0, 0) 1)"
proof -
  have c: "construct toy_env (net A) 0 = ((0, 0), 1)" if "net A = Normal" for A :: args
    using that by (simp add: toy_env_def)
  have d: "(if 0 \<le> gpu A then to_device toy_env (gpu A) (0, 0) else Some (0, 0)) = Some (0, 0)"
    if "gpu A = - 1" for A :: args
    using that by simp
  have n: "net (toy_args\<lparr>initmodel := x\<rparr>) = Normal" "net (toy_args\<lparr>resume := x\<rparr>) = Normal"
    "net (toy_args\<lparr>initmodel := x, resume := y\<rparr>) = Normal" "net toy_args = Normal" for x y
    by (simp_all add: toy_args_def)
  have g: "gpu (toy_args\<lparr>initmodel := x\<rparr>) = - 1" "gpu (toy_args\<lparr>resume := x\<rparr>) = - 1"
    "gpu (toy_args\<lparr>initmodel := x, resume := y\<rparr>) = - 1" "gpu toy_args = - 1" for x y
    by (simp_all add: toy_args_def)
  note t1 = checkpoint_load_failure_aborts[OF c[OF n(1)] d[OF g(1)], where D = toy_data]
  note t2 = checkpoint_load_failure_aborts[OF c[OF n(2)] d[OF g(2)], where D = toy_data]
  note t3 = checkpoint_load_failure_aborts[OF c[OF n(3)] d[OF g(3)], where D = toy_data and m' = "(7, 0)"]
  note t4 = checkpoint_load_failure_aborts[OF c[OF n(4)] d[OF g(4)]]
  have l1: "load_npz_model toy_env ''missing.model'' (0, 0) = None"
    and l2: "load_npz_optimizer toy_env ''missing.state'' (setup_optimizer toy_env (0, 0)) = None"
    and l3: "load_npz_model toy_env ''ok.model'' (0, 0) = Some (7, 0)"
    by (simp_all add: toy_env_def)
  have e: "initmodel toy_args = []" "resume toy_args = []" by (simp_all add: toy_args_def)
  show ?thesis
    using t1 t2 t3 t4 l1 l2 l3 e c[OF n(4)] d[OF g(4)] by simp
qed

text \<open>
  The script does not validate the epoch count or the batch size. A run with epoch count 0
  raises nothing and saves the model: the claim that such a run fails fast with a
  configuration error before anything is saved does not hold.
\<close>

theorem config_error_counterexample:
  "epoch (toy_args\<lparr>epoch := 0\<rparr>) \<le> 0
   \<and> \<not> isl (main toy_env (toy_args\<lparr>epoch := 0\<rparr>) tiny_raw 0)
   \<and> Save_model \<in> set (trace (final_state (main toy_env (toy_args\<lparr>epoch := 0\<rparr>) tiny_raw 0)))"
  by (simp add: main_def run_def build_def init_resume_def learning_loop_def save_def
      toy_env_def toy_args_def)

text \<open>
  C6 (as amended). Let set-up succeed. If the configured epoch count or batch size is
  non-positive, no training step is executed: the trace of the run, returned or raised, holds
  no optimizer update and no forward pass, and model and optimizer are as set-up left them.
  With a non-positive epoch count the run returns and saves that model. With a positive
  epoch count and batch size 0 the run raises \<^verbatim>\<open>ValueError\<close> (from \<^verbatim>\<open>range\<close>, in the
  first epoch) and nothing is saved. With a positive epoch count and a negative batch size
  every loop runs zero times, and when no report divides by zero the run returns and saves
  the untrained model.
\<close>

theorem nonpositive_epoch_or_batchsize_trains_nothing:
  assumes ok: "build E A seed = Inr st0"
    and np: "epoch A \<le> 0 \<or> batchsize A \<le> 0"
  shows "model (final_state (run E A D seed)) = model st0
       \<and> optimizer (final_state (run E A D seed)) = optimizer st0
       \<and> updates (trace (final_state (run E A D seed))) = []
       \<and> forwards (trace (final_state (run E A D seed))) = []
       \<and> (epoch A \<le> 0 \<longrightarrow> run E A D seed = Inr (save st0))
       \<and> (0 < epoch A \<and> batchsize A = 0 \<longrightarrow>
            (\<exists>st. run E A D seed = Inl (ValueError, st)
                  \<and> Save_model \<notin> set (trace st) \<and> Save_optimizer \<notin> set (trace st)))
       \<and> (0 < epoch A \<and> batchsize A < 0 \<and> N_train D \<noteq> 0 \<and> N_test D \<noteq> 0
            \<and> (\<forall>e. elapsed_time E e \<noteq> 0) \<longrightarrow>
            \<not> isl (run E A D seed) \<and> Save_model \<in> set (trace (final_state (run E A D seed))))"
proof -
  let ?I = "\<lambda>s. model s = model st0 \<and> optimizer s = optimizer st0
               \<and> updates (trace s) = [] \<and> forwards (trace s) = []
               \<and> Save_model \<notin> set (trace s) \<and> Save_optimizer \<notin> set (trace s)"
  let ?ll = "learning_loop E A D st0"
  have i0: "?I st0" using build_trace[OF ok] by simp
  have e0: "epoch A \<le> 0 \<Longrightarrow> ?ll = Inr st0"
    by (simp add: learning_loop_def)
  have ill: "?I (final_state ?ll)"
  proof (cases "epoch A \<le> 0")
    case True
    then show ?thesis using i0 e0 by simp
  next
    case False
    then have b: "batchsize A \<le> 0" using np by simp
    show ?thesis
      unfolding learning_loop_def
      by (rule for_loop_final_invariant[where I = ?I, OF _ i0])
         (rule epoch_body_nonpositive_batchsize[OF b])
  qed
  have fin: "final_state (run E A D seed)
               = (case ?ll of Inl (e, s) \<Rightarrow> s | Inr s \<Rightarrow> save s)"
    using ok by (simp add: run_def split: sum.splits)
  have c14: "model (final_state (run E A D seed)) = model st0
       \<and> optimizer (final_state (run E A D seed)) = optimizer st0
       \<and> updates (trace (final_state (run E A D seed))) = []
       \<and> forwards (trace (final_state (run E A D seed))) = []"
    using ill by (cases ?ll) (auto simp: fin save_def)
  have c5: "epoch A \<le> 0 \<longrightarrow> run E A D seed = Inr (save st0)"
    using ok e0 by (simp add: run_def)
  have c6: "0 < epoch A \<and> batchsize A = 0 \<longrightarrow>
            (\<exists>st. run E A D seed = Inl (ValueError, st)
                  \<and> Save_model \<notin> set (trace st) \<and> Save_optimizer \<notin> set (trace st))"
  proof
    assume h: "0 < epoch A \<and> batchsize A = 0"
    then have "[1..<Suc (nat (epoch A))] = Suc 0 # [Suc (Suc 0)..<Suc (nat (epoch A))]"
      by (subst upt_rec) simp
    then have "\<exists>st. ?ll = Inl (ValueError, st)"
      using h by (simp add: learning_loop_def epoch_body_def train_phase_def py_range_def
          split: prod.splits)
    then obtain st where l: "?ll = Inl (ValueError, st)" by blast
    then have "run E A D seed = Inl (ValueError, st)" using ok by (simp add: run_def)
    moreover have "Save_model \<notin> set (trace st) \<and> Save_optimizer \<notin> set (trace st)"
      using ill l by simp
    ultimately show "\<exists>st. run E A D seed = Inl (ValueError, st)
                  \<and> Save_model \<notin> set (trace st) \<and> Save_optimizer \<notin> set (trace st)"
      by blast
  qed
  have c7: "0 < epoch A \<and> batchsize A < 0 \<and> N_train D \<noteq> 0 \<and> N_test D \<noteq> 0
            \<and> (\<forall>e. elapsed_time E e \<noteq> 0) \<longrightarrow>
            \<not> isl (run E A D seed) \<and> Save_model \<in> set (trace (final_state (run E A D seed)))"
  proof
    assume h: "0 < epoch A \<and> batchsize A < 0 \<and> N_train D \<noteq> 0 \<and> N_test D \<noteq> 0
            \<and> (\<forall>e. elapsed_time E e \<noteq> 0)"
    have "\<not> isl ?ll"
      unfolding learning_loop_def
      by (rule for_loop_returns) (use h in \<open>simp add: epoch_body_negative_batchsize_returns\<close>)
    then obtain s where l: "?ll = Inr s" by (cases ?ll) auto
    then have "run E A D seed = Inr (save s)" using ok by (simp add: run_def)
    then show "\<not> isl (run E A D seed) \<and> Save_model \<in> set (trace (final_state (run E A D seed)))"
      by (simp add: save_def)
  qed
  show ?thesis using c14 c5 c6 c7 by blast
qed

theorem nonpositive_epoch_or_batchsize_trains_nothing_witness:
  "build toy_env (toy_args\<lparr>epoch := 0\<rparr>) 0 = Inr (fresh_state toy_env (0, 0) 1)
   \<and> epoch (toy_args\<lparr>epoch := 0\<rparr>) \<le> 0
   \<and> run toy_env (toy_args\<lparr>epoch := 0\<rparr>) toy_data 0 = Inr (save (fresh_state toy_env (0, 0) 1))
   \<and> build toy_env (toy_args\<lparr>batchsize := 0\<rparr>) 0 = Inr (fresh_state toy_env (0, 0) 1)
   \<and> batchsize (toy_args\<lparr>batchsize := 0\<rparr>) \<le> 0
   \<and> (\<exists>st. run toy_env (toy_args\<lparr>batchsize := 0\<rparr>) toy_data 0 = Inl (ValueError, st)
          \<and> Save_model \<notin> set (trace st) \<and> Save_optimizer \<notin> set (trace st))
   \<and> build toy_env (toy_args\<lparr>batchsize := - 3\<rparr>) 0 = Inr (fresh_state toy_env (0, 0) 1)
   \<and> batchsize (toy_args\<lparr>batchsize := - 3\<rparr>) \<le> 0
   \<and> \<not> isl (run toy_env (toy_args\<lparr>batchsize := - 3\<rparr>) toy_data 0)
   \<and> Save_model \<in> set (trace (final_state (run toy_env (toy_args\<lparr>batchsize := - 3\<rparr>) toy_data 0)))
   \<and> updates (trace (final_state (run toy_env (toy_args\<lparr>batchsize := - 3\<rparr>) toy_data 0))) = []
   \<and> model (final_state (run toy_env (toy_args\<lparr>batchsize := - 3\<rparr>) toy_data 0)) = (0, 0)"
proof -
  have b1: "build toy_env (toy_args\<lparr>epoch := 0\<rparr>) 0 = Inr (fresh_state toy_env (0, 0) 1)"
    and b2: "build toy_env (toy_args\<lparr>batchsize := 0\<rparr>) 0 = Inr (fresh_state toy_env (0, 0) 1)"
    and b3: "build toy_env (toy_args\<lparr>batchsize := - 3\<rparr>) 0 = Inr (fresh_state toy_env (0, 0) 1)"
    by (simp_all add: build_def init_resume_def fresh_state_def toy_env_def toy_args_def)
  have n1: "epoch (toy_args\<lparr>epoch := 0\<rparr>) \<le> 0 \<or> batchsize (toy_args\<lparr>epoch := 0\<rparr>) \<le> 0"
    and n2: "epoch (toy_args\<lparr>batchsize := 0\<rparr>) \<le> 0 \<or> batchsize (toy_args\<lparr>batchsize := 0\<rparr>) \<le> 0"
    and n3: "epoch (toy_args\<lparr>batchsize := - 3\<rparr>) \<le> 0 \<or> batchsize (toy_args\<lparr>batchsize := - 3\<rparr>) \<le> 0"
    by simp_all
  note t1 = nonpositive_epoch_or_batchsize_trains_nothing[OF b1 n1, where D = toy_data]
  note t2 = nonpositive_epoch_or_batchsize_trains_nothing[OF b2 n2, where D = toy_data]
  note t3 = nonpositive_epoch_or_batchsize_trains_nothing[OF b3 n3, where D = toy_data]
  have e: "0 < epoch toy_args" "N_train toy_data \<noteq> 0" "N_test toy_data \<noteq> 0"
    "\<forall>e. elapsed_time toy_env e \<noteq> 0"
    by (simp_all add: toy_args_def toy_data_def toy_env_def)
  have m: "model (fresh_state toy_env (0, 0) 1) = (0, 0)" by (simp add: fresh_state_def)
  show ?thesis
    using t1 t2 t3 e m b1 b2 b3 by simp
qed

end
